theory Spec2Isabelle
  imports Main "HOL-Library.Word"
begin

unbundle bit_operations_syntax

section \<open>The GIO interface the module is written against\<close>

text \<open>
  \<^verbatim>\<open>thunar-gio-extensions.c\<close> is a set of wrappers around GIO. GIO itself is not part
  of the sources, so every GIO entry point the wrappers call is a parameter of the model:
  a field of one of the two interface records below, named as the C function is. A
  \<^verbatim>\<open>GFile\<close> handle is a value of the type variable \<open>'f\<close>, the state of the file systems
  behind GIO a value of \<open>'w\<close>. Theorems hold for every implementation of the interface;
  a small implementation (\<open>toy\<close>) is defined further down for evaluation.
\<close>

type_synonym gcancellable = nat \<comment> \<open>the identity of a \<^verbatim>\<open>GCancellable\<close> object\<close>
type_synonym gcallback = nat \<comment> \<open>the identity of a callback or of its user data\<close>

text \<open>A \<^verbatim>\<open>GError\<close>: error domain, code and message.\<close>

datatype gerror = GError (err_domain: string) (err_code: nat) (err_message: string)

text \<open>
  A \<^verbatim>\<open>GError **\<close> argument: \<open>None\<close> is the \<^verbatim>\<open>NULL\<close> pointer, \<open>Some c\<close> a pointer to a
  location that holds \<open>c\<close> (\<open>None\<close> for an empty location). An out-parameter of another
  type is modelled the same way.
\<close>

type_synonym gerror_ptr = "gerror option option"

text \<open>
  GLib's rule for reporting through a \<^verbatim>\<open>GError **\<close> (\<^verbatim>\<open>g_set_error\<close>,
  \<^verbatim>\<open>g_propagate_error\<close>): nothing is stored through \<^verbatim>\<open>NULL\<close>, an empty location receives
  the error, a location that already holds an error keeps it.
\<close>

definition g_set_error :: "gerror_ptr \<Rightarrow> gerror \<Rightarrow> gerror_ptr" where
  "g_set_error err e =
     (case err of
        None \<Rightarrow> None
      | Some None \<Rightarrow> Some (Some e)
      | Some (Some old) \<Rightarrow> Some (Some old))"

text \<open>\<^verbatim>\<open>g_clear_error (err)\<close> empties the location; the callers test \<^verbatim>\<open>err != NULL\<close> first.\<close>

definition g_clear_error :: "gerror_ptr \<Rightarrow> gerror_ptr" where
  "g_clear_error err = (case err of None \<Rightarrow> None | Some c \<Rightarrow> Some None)"

text \<open>The error domain of GIO and two of its codes.\<close>

definition G_IO_ERROR :: string where "G_IO_ERROR = ''g-io-error-quark''"
definition G_IO_ERROR_NOT_FOUND :: nat where "G_IO_ERROR_NOT_FOUND = 1"
definition G_IO_ERROR_EXISTS :: nat where "G_IO_ERROR_EXISTS = 2"

subsection \<open>File information\<close>

text \<open>A \<^verbatim>\<open>GFileInfo\<close> is a table from attribute names to typed values.\<close>

datatype g_file_attribute_value = ATTR_UINT32 "32 word" | ATTR_UINT64 "64 word"

type_synonym g_file_info = "(string \<times> g_file_attribute_value) list"

definition G_FILE_ATTRIBUTE_STANDARD_TYPE :: string where
  "G_FILE_ATTRIBUTE_STANDARD_TYPE = ''standard::type''"

definition G_FILE_ATTRIBUTE_UNIX_MODE :: string where
  "G_FILE_ATTRIBUTE_UNIX_MODE = ''unix::mode''"

definition G_FILE_ATTRIBUTE_FILESYSTEM_FREE :: string where
  "G_FILE_ATTRIBUTE_FILESYSTEM_FREE = ''filesystem::free''"

definition G_FILE_ATTRIBUTE_FILESYSTEM_SIZE :: string where
  "G_FILE_ATTRIBUTE_FILESYSTEM_SIZE = ''filesystem::size''"

definition g_file_info_has_attribute :: "g_file_info \<Rightarrow> string \<Rightarrow> bool" where
  "g_file_info_has_attribute info a = (map_of info a \<noteq> None)"

text \<open>The getters return 0 for an attribute that is unset or of another type.\<close>

definition g_file_info_get_attribute_uint64 :: "g_file_info \<Rightarrow> string \<Rightarrow> 64 word" where
  "g_file_info_get_attribute_uint64 info a =
     (case map_of info a of Some (ATTR_UINT64 v) \<Rightarrow> v | _ \<Rightarrow> 0)"

definition g_file_info_get_attribute_uint32 :: "g_file_info \<Rightarrow> string \<Rightarrow> 32 word" where
  "g_file_info_get_attribute_uint32 info a =
     (case map_of info a of Some (ATTR_UINT32 v) \<Rightarrow> v | _ \<Rightarrow> 0)"

text \<open>\<^verbatim>\<open>GFileType\<close>, stored in \<^verbatim>\<open>standard::type\<close>.\<close>

definition G_FILE_TYPE_UNKNOWN :: "32 word" where "G_FILE_TYPE_UNKNOWN = 0"
definition G_FILE_TYPE_REGULAR :: "32 word" where "G_FILE_TYPE_REGULAR = 1"
definition G_FILE_TYPE_DIRECTORY :: "32 word" where "G_FILE_TYPE_DIRECTORY = 2"

definition g_file_info_get_file_type :: "g_file_info \<Rightarrow> 32 word" where
  "g_file_info_get_file_type info =
     g_file_info_get_attribute_uint32 info G_FILE_ATTRIBUTE_STANDARD_TYPE"

text \<open>\<^verbatim>\<open>GFileCopyFlags\<close> and \<^verbatim>\<open>GFileQueryInfoFlags\<close> are bit masks.\<close>

definition G_FILE_COPY_NONE :: "32 word" where "G_FILE_COPY_NONE = 0"
definition G_FILE_COPY_OVERWRITE :: "32 word" where "G_FILE_COPY_OVERWRITE = 1"
definition G_FILE_COPY_NOFOLLOW_SYMLINKS :: "32 word" where "G_FILE_COPY_NOFOLLOW_SYMLINKS = 4"
definition G_FILE_QUERY_INFO_NONE :: "32 word" where "G_FILE_QUERY_INFO_NONE = 0"
definition G_FILE_QUERY_INFO_NOFOLLOW_SYMLINKS :: "32 word" where
  "G_FILE_QUERY_INFO_NOFOLLOW_SYMLINKS = 1"

subsection \<open>Handles\<close>

text \<open>The GIO functions on handles that do no I/O.\<close>

record 'f gfile_iface =
  g_file_new_for_path :: "string \<Rightarrow> 'f"
  g_file_new_for_uri :: "string \<Rightarrow> 'f"
  g_file_get_uri :: "'f \<Rightarrow> string option"
  g_file_get_uri_scheme :: "'f \<Rightarrow> string option"
  g_file_get_parse_name :: "'f \<Rightarrow> string"
  g_file_get_basename :: "'f \<Rightarrow> string option"
  g_file_peek_path :: "'f \<Rightarrow> string option"
  g_file_get_parent :: "'f \<Rightarrow> 'f option"
  g_file_get_child :: "'f \<Rightarrow> string \<Rightarrow> 'f"
  g_file_equal :: "'f \<Rightarrow> 'f \<Rightarrow> bool"
  g_file_is_native :: "'f \<Rightarrow> bool"

subsection \<open>I/O\<close>

text \<open>
  The GIO functions that do I/O take the state of the world and return the new one. A
  function that reports through a \<^verbatim>\<open>GError **\<close> returns \<open>Inl\<close> the error it produces, or
  \<open>Inr\<close> its result. \<^verbatim>\<open>g_file_replace_contents\<close> is always called with no entity tag, no
  backup and \<^verbatim>\<open>G_FILE_CREATE_NONE\<close>; these arguments are left out.
  \<^verbatim>\<open>xfce_g_file_create_checksum\<close> belongs to libxfce4util and reads the file through GIO.
\<close>

record ('f, 'w) gvfs_iface =
  g_file_query_info ::
    "'f \<Rightarrow> string \<Rightarrow> 32 word \<Rightarrow> gcancellable option \<Rightarrow> 'w \<Rightarrow> (gerror + g_file_info) \<times> 'w"
  g_file_query_filesystem_info ::
    "'f \<Rightarrow> string \<Rightarrow> gcancellable option \<Rightarrow> 'w \<Rightarrow> (gerror + g_file_info) \<times> 'w"
  g_file_query_exists :: "'f \<Rightarrow> gcancellable option \<Rightarrow> 'w \<Rightarrow> bool \<times> 'w"
  g_file_delete :: "'f \<Rightarrow> gcancellable option \<Rightarrow> 'w \<Rightarrow> (gerror + unit) \<times> 'w"
  g_file_copy ::
    "'f \<Rightarrow> 'f \<Rightarrow> 32 word \<Rightarrow> gcancellable option \<Rightarrow> gcallback option \<Rightarrow> gcallback option
       \<Rightarrow> 'w \<Rightarrow> (gerror + unit) \<times> 'w"
  g_file_set_display_name ::
    "'f \<Rightarrow> string \<Rightarrow> gcancellable option \<Rightarrow> 'w \<Rightarrow> (gerror + 'f) \<times> 'w"
  g_file_set_attribute_uint32 ::
    "'f \<Rightarrow> string \<Rightarrow> 32 word \<Rightarrow> 32 word \<Rightarrow> gcancellable option \<Rightarrow> 'w
       \<Rightarrow> (gerror + unit) \<times> 'w"
  g_file_load_contents :: "'f \<Rightarrow> gcancellable option \<Rightarrow> 'w \<Rightarrow> (gerror + string) \<times> 'w"
  g_file_replace_contents ::
    "'f \<Rightarrow> string \<Rightarrow> gcancellable option \<Rightarrow> 'w \<Rightarrow> (gerror + unit) \<times> 'w"
  xfce_g_file_create_checksum ::
    "'f \<Rightarrow> gcancellable option \<Rightarrow> 'w \<Rightarrow> (gerror + string) \<times> 'w"

text \<open>
  Every call into the I/O interface is recorded: the call with its arguments, whether an
  error location was passed (\<open>False\<close> for \<^verbatim>\<open>NULL\<close>), and what came back.
\<close>

datatype 'f gio_call =
    QueryInfo 'f string "32 word" "gcancellable option"
  | QueryFilesystemInfo 'f string "gcancellable option"
  | QueryExists 'f "gcancellable option"
  | Delete 'f "gcancellable option"
  | Copy 'f 'f "32 word" "gcancellable option" "gcallback option" "gcallback option"
  | SetDisplayName 'f string "gcancellable option"
  | SetAttributeUInt32 'f string "32 word" "32 word" "gcancellable option"
  | LoadContents 'f "gcancellable option"
  | ReplaceContents 'f string "gcancellable option"
  | CreateChecksum 'f "gcancellable option"

datatype g_outcome = G_OK | G_FAILED gerror | G_ANSWER bool

type_synonym 'f gio_event = "'f gio_call \<times> bool \<times> g_outcome"

record ('f, 'w) exec =
  world :: 'w
  calls :: "'f gio_event list"

definition logged :: "'f gio_call \<Rightarrow> gerror_ptr \<Rightarrow> g_outcome \<Rightarrow> 'w \<Rightarrow> ('f, 'w) exec \<Rightarrow> ('f, 'w) exec" where
  "logged c err out w s = \<lparr>world = w, calls = calls s @ [(c, err \<noteq> None, out)]\<rparr>"

text \<open>
  One wrapper per I/O function: it runs the call on the current world, stores a produced
  error through the error pointer by GLib's rule, and records the call. A result of
  pointer type is an option (\<open>None\<close> for \<^verbatim>\<open>NULL\<close>).
\<close>

definition io_query_info ::
  "('f, 'w) gvfs_iface \<Rightarrow> 'f \<Rightarrow> string \<Rightarrow> 32 word \<Rightarrow> gcancellable option \<Rightarrow> gerror_ptr
     \<Rightarrow> ('f, 'w) exec \<Rightarrow> g_file_info option \<times> gerror_ptr \<times> ('f, 'w) exec" where
  "io_query_info V file attrs flags canc err s =
     (case g_file_query_info V file attrs flags canc (world s) of
        (Inl e, w) \<Rightarrow> (None, g_set_error err e, logged (QueryInfo file attrs flags canc) err (G_FAILED e) w s)
      | (Inr info, w) \<Rightarrow> (Some info, err, logged (QueryInfo file attrs flags canc) err G_OK w s))"

definition io_query_filesystem_info ::
  "('f, 'w) gvfs_iface \<Rightarrow> 'f \<Rightarrow> string \<Rightarrow> gcancellable option \<Rightarrow> gerror_ptr
     \<Rightarrow> ('f, 'w) exec \<Rightarrow> g_file_info option \<times> gerror_ptr \<times> ('f, 'w) exec" where
  "io_query_filesystem_info V file attrs canc err s =
     (case g_file_query_filesystem_info V file attrs canc (world s) of
        (Inl e, w) \<Rightarrow> (None, g_set_error err e, logged (QueryFilesystemInfo file attrs canc) err (G_FAILED e) w s)
      | (Inr info, w) \<Rightarrow> (Some info, err, logged (QueryFilesystemInfo file attrs canc) err G_OK w s))"

definition io_query_exists ::
  "('f, 'w) gvfs_iface \<Rightarrow> 'f \<Rightarrow> gcancellable option \<Rightarrow> ('f, 'w) exec \<Rightarrow> bool \<times> ('f, 'w) exec" where
  "io_query_exists V file canc s =
     (case g_file_query_exists V file canc (world s) of
        (b, w) \<Rightarrow> (b, logged (QueryExists file canc) None (G_ANSWER b) w s))"

definition io_delete ::
  "('f, 'w) gvfs_iface \<Rightarrow> 'f \<Rightarrow> gcancellable option \<Rightarrow> gerror_ptr
     \<Rightarrow> ('f, 'w) exec \<Rightarrow> bool \<times> gerror_ptr \<times> ('f, 'w) exec" where
  "io_delete V file canc err s =
     (case g_file_delete V file canc (world s) of
        (Inl e, w) \<Rightarrow> (False, g_set_error err e, logged (Delete file canc) err (G_FAILED e) w s)
      | (Inr u, w) \<Rightarrow> (True, err, logged (Delete file canc) err G_OK w s))"

definition io_copy ::
  "('f, 'w) gvfs_iface \<Rightarrow> 'f \<Rightarrow> 'f \<Rightarrow> 32 word \<Rightarrow> gcancellable option \<Rightarrow> gcallback option
     \<Rightarrow> gcallback option \<Rightarrow> gerror_ptr \<Rightarrow> ('f, 'w) exec \<Rightarrow> bool \<times> gerror_ptr \<times> ('f, 'w) exec" where
  "io_copy V src dst flags canc cb cbd err s =
     (case g_file_copy V src dst flags canc cb cbd (world s) of
        (Inl e, w) \<Rightarrow> (False, g_set_error err e, logged (Copy src dst flags canc cb cbd) err (G_FAILED e) w s)
      | (Inr u, w) \<Rightarrow> (True, err, logged (Copy src dst flags canc cb cbd) err G_OK w s))"

definition io_set_display_name ::
  "('f, 'w) gvfs_iface \<Rightarrow> 'f \<Rightarrow> string \<Rightarrow> gcancellable option \<Rightarrow> gerror_ptr
     \<Rightarrow> ('f, 'w) exec \<Rightarrow> 'f option \<times> gerror_ptr \<times> ('f, 'w) exec" where
  "io_set_display_name V file name canc err s =
     (case g_file_set_display_name V file name canc (world s) of
        (Inl e, w) \<Rightarrow> (None, g_set_error err e, logged (SetDisplayName file name canc) err (G_FAILED e) w s)
      | (Inr f, w) \<Rightarrow> (Some f, err, logged (SetDisplayName file name canc) err G_OK w s))"

definition io_set_attribute_uint32 ::
  "('f, 'w) gvfs_iface \<Rightarrow> 'f \<Rightarrow> string \<Rightarrow> 32 word \<Rightarrow> 32 word \<Rightarrow> gcancellable option \<Rightarrow> gerror_ptr
     \<Rightarrow> ('f, 'w) exec \<Rightarrow> bool \<times> gerror_ptr \<times> ('f, 'w) exec" where
  "io_set_attribute_uint32 V file attr v flags canc err s =
     (case g_file_set_attribute_uint32 V file attr v flags canc (world s) of
        (Inl e, w) \<Rightarrow> (False, g_set_error err e, logged (SetAttributeUInt32 file attr v flags canc) err (G_FAILED e) w s)
      | (Inr u, w) \<Rightarrow> (True, err, logged (SetAttributeUInt32 file attr v flags canc) err G_OK w s))"




subsection \<open>What the module takes from the other headers of the repository\<close>

text \<open>
  Macros and functions that the file uses and other files of Thunar, libxfce4util and the
  message catalogue define. They are parameters of the model.
\<close>

record externals =
  THUNARX_FILESYSTEM_INFO_NAMESPACE :: string
  THUNAR_FILE_MODE_USR_EXEC :: "32 word"
  THUNAR_FILE_MODE_GRP_EXEC :: "32 word"
  THUNAR_FILE_MODE_OTH_EXEC :: "32 word"
  xfce_get_homedir :: string
  gettext :: "string \<Rightarrow> string"
  glib_checks :: bool
  thunar_debug :: bool

text \<open>
  The two assertion macros. \<^verbatim>\<open>g_return_val_if_fail (expr, val)\<close> is GLib's: it returns
  \<^verbatim>\<open>val\<close> when \<^verbatim>\<open>expr\<close> is false, unless GLib's checks are compiled out
  (\<open>glib_checks\<close> is false). \<^verbatim>\<open>_thunar_return_val_if_fail\<close> is defined in
  \<^verbatim>\<open>thunar-private.h\<close>, which is not among the sources: in a debug build of Thunar
  (\<open>thunar_debug\<close>) it is \<^verbatim>\<open>g_return_val_if_fail\<close>, in any other build it expands to
  nothing. Which build it is is a parameter. Each function below says whether the macro
  makes the C function return at once.
\<close>

definition g_return_val_if_fail :: "externals \<Rightarrow> bool \<Rightarrow> bool" where
  "g_return_val_if_fail X expr = (glib_checks X \<and> \<not> expr)"

definition thunar_return_val_if_fail :: "externals \<Rightarrow> bool \<Rightarrow> bool" where
  "thunar_return_val_if_fail X expr = (thunar_debug X \<and> g_return_val_if_fail X expr)"

text \<open>
  \<^verbatim>\<open>g_file_has_parent (file, NULL)\<close>: whether the handle has a parent at all. The
  condition \<^verbatim>\<open>error == NULL || *error == NULL\<close> on a \<^verbatim>\<open>GError **\<close> argument.
\<close>

definition g_file_has_parent :: "'f gfile_iface \<Rightarrow> 'f \<Rightarrow> bool" where
  "g_file_has_parent F file = (g_file_get_parent F file \<noteq> None)"

definition no_error_yet :: "gerror_ptr \<Rightarrow> bool" where
  "no_error_yet error = (error = None \<or> error = Some None)"

section \<open>Free space\<close>

text \<open>
  \<^verbatim>\<open>thunar_g_file_get_free_space (file, fs_free_return, fs_size_return)\<close>. The two
  out-parameters are \<open>None\<close> for \<^verbatim>\<open>NULL\<close> and \<open>Some v\<close> for a location holding \<open>v\<close>; the
  result is the returned \<^verbatim>\<open>gboolean\<close> and the two locations after the call. The query
  passes \<^verbatim>\<open>NULL\<close> for the cancellable and for the error.
\<close>

definition thunar_g_file_get_free_space ::
  "externals \<Rightarrow> ('f, 'w) gvfs_iface \<Rightarrow> 'f \<Rightarrow> 64 word option \<Rightarrow> 64 word option \<Rightarrow> ('f, 'w) exec
     \<Rightarrow> (bool \<times> 64 word option \<times> 64 word option) \<times> ('f, 'w) exec" where
  "thunar_g_file_get_free_space X V file fs_free_return fs_size_return s =
     (case io_query_filesystem_info V file (THUNARX_FILESYSTEM_INFO_NAMESPACE X) None None s of
        (None, err, s1) \<Rightarrow> ((False, fs_free_return, fs_size_return), s1)
      | (Some filesystem_info, err, s1) \<Rightarrow>
          (let (success1, free') =
                 (if fs_free_return \<noteq> None
                  then (g_file_info_has_attribute filesystem_info G_FILE_ATTRIBUTE_FILESYSTEM_FREE,
                        Some (g_file_info_get_attribute_uint64 filesystem_info G_FILE_ATTRIBUTE_FILESYSTEM_FREE))
                  else (False, fs_free_return));
               (success2, size') =
                 (if fs_size_return \<noteq> None
                  then (g_file_info_has_attribute filesystem_info G_FILE_ATTRIBUTE_FILESYSTEM_SIZE,
                        Some (g_file_info_get_attribute_uint64 filesystem_info G_FILE_ATTRIBUTE_FILESYSTEM_SIZE))
                  else (success1, fs_size_return))
           in ((success2, free', size'), s1)))"

section \<open>Strings\<close>

text \<open>
  C strings are byte lists. \<^verbatim>\<open>strcmp\<close> compares byte by byte; only the sign of its
  result is specified, so the model returns \<open>-1\<close>, \<open>0\<close> or \<open>1\<close>. \<^verbatim>\<open>g_strcmp0\<close> is
  \<^verbatim>\<open>strcmp\<close> that accepts \<^verbatim>\<open>NULL\<close>, which sorts before every string.
\<close>

fun strcmp :: "string \<Rightarrow> string \<Rightarrow> int" where
  "strcmp [] [] = 0"
| "strcmp [] (y # ys) = - 1"
| "strcmp (x # xs) [] = 1"
| "strcmp (x # xs) (y # ys) =
     (if x = y then strcmp xs ys
      else if (of_char x :: nat) < of_char y then - 1 else 1)"

fun g_strcmp0 :: "string option \<Rightarrow> string option \<Rightarrow> int" where
  "g_strcmp0 None None = 0"
| "g_strcmp0 None (Some b) = - 1"
| "g_strcmp0 (Some a) None = 1"
| "g_strcmp0 (Some a) (Some b) = strcmp a b"

text \<open>The GLib string functions the module calls, as parameters.\<close>

record glib_iface =
  g_utf8_validate :: "string \<Rightarrow> bool"
  g_uri_escape_string :: "string \<Rightarrow> string \<Rightarrow> bool \<Rightarrow> string"
  g_uri_unescape_string :: "string \<Rightarrow> string option \<Rightarrow> string option"

definition G_URI_RESERVED_CHARS_ALLOWED_IN_PATH :: string where
  "G_URI_RESERVED_CHARS_ALLOWED_IN_PATH = ''!$&'' @ [CHR 0x27] @ ''()*+,;=:@/''"

section \<open>Constructors for the named locations\<close>

definition thunar_g_file_new_for_home :: "externals \<Rightarrow> 'f gfile_iface \<Rightarrow> 'f" where
  "thunar_g_file_new_for_home X F = g_file_new_for_path F (xfce_get_homedir X)"

definition thunar_g_file_new_for_root :: "'f gfile_iface \<Rightarrow> 'f" where
  "thunar_g_file_new_for_root F = g_file_new_for_uri F ''file:///''"

definition thunar_g_file_new_for_recent :: "'f gfile_iface \<Rightarrow> 'f" where
  "thunar_g_file_new_for_recent F = g_file_new_for_uri F ''recent:///''"

definition thunar_g_file_new_for_trash :: "'f gfile_iface \<Rightarrow> 'f" where
  "thunar_g_file_new_for_trash F = g_file_new_for_uri F ''trash:///''"

definition thunar_g_file_new_for_computer :: "'f gfile_iface \<Rightarrow> 'f" where
  "thunar_g_file_new_for_computer F = g_file_new_for_uri F ''computer://''"

definition thunar_g_file_new_for_network :: "'f gfile_iface \<Rightarrow> 'f" where
  "thunar_g_file_new_for_network F = g_file_new_for_uri F ''network://''"

text \<open>
  The names of the locations, the table of the specification (a name is mapped to a path
  or to a URI), and the constructor the module has for each name.
\<close>

datatype named_location = Home | Trash | Recent | Computer | Network

datatype location_target = TargetPath string | TargetUri string

definition named_location_target :: "externals \<Rightarrow> named_location \<Rightarrow> location_target" where
  "named_location_target X l =
     (case l of
        Home \<Rightarrow> TargetPath (xfce_get_homedir X)
      | Trash \<Rightarrow> TargetUri ''trash:///''
      | Recent \<Rightarrow> TargetUri ''recent:///''
      | Computer \<Rightarrow> TargetUri ''computer://''
      | Network \<Rightarrow> TargetUri ''network://'')"

definition constructor_for :: "externals \<Rightarrow> 'f gfile_iface \<Rightarrow> named_location \<Rightarrow> 'f" where
  "constructor_for X F l =
     (case l of
        Home \<Rightarrow> thunar_g_file_new_for_home X F
      | Trash \<Rightarrow> thunar_g_file_new_for_trash F
      | Recent \<Rightarrow> thunar_g_file_new_for_recent F
      | Computer \<Rightarrow> thunar_g_file_new_for_computer F
      | Network \<Rightarrow> thunar_g_file_new_for_network F)"

section \<open>Predicates on handles\<close>

text \<open>
  The \<^verbatim>\<open>_thunar_return_val_if_fail (G_IS_FILE (file), ...)\<close> lines are debugging
  assertions on the argument; a handle of type \<open>'f\<close> is a \<^verbatim>\<open>GFile\<close>, so they pass.
\<close>

definition thunar_g_file_is_root :: "'f gfile_iface \<Rightarrow> 'f \<Rightarrow> bool" where
  "thunar_g_file_is_root F file =
     (case g_file_get_parent F file of Some parent \<Rightarrow> False | None \<Rightarrow> True)"

definition thunar_g_file_is_trash :: "'f gfile_iface \<Rightarrow> 'f \<Rightarrow> bool" where
  "thunar_g_file_is_trash F file = (g_strcmp0 (g_file_get_uri F file) (Some ''trash:///'') = 0)"

definition thunar_g_file_is_recent :: "'f gfile_iface \<Rightarrow> 'f \<Rightarrow> bool" where
  "thunar_g_file_is_recent F file = (g_strcmp0 (g_file_get_uri F file) (Some ''recent:///'') = 0)"

definition thunar_g_file_is_computer :: "'f gfile_iface \<Rightarrow> 'f \<Rightarrow> bool" where
  "thunar_g_file_is_computer F file =
     (g_strcmp0 (g_file_get_uri F file) (Some ''computer:///'') = 0)"

definition thunar_g_file_is_network :: "'f gfile_iface \<Rightarrow> 'f \<Rightarrow> bool" where
  "thunar_g_file_is_network F file =
     (g_strcmp0 (g_file_get_uri F file) (Some ''network:///'') = 0)"

section \<open>Display names\<close>

definition thunar_g_file_get_display_name ::
  "externals \<Rightarrow> glib_iface \<Rightarrow> 'f gfile_iface \<Rightarrow> 'f \<Rightarrow> string" where
  "thunar_g_file_get_display_name X G F file =
     (case g_file_get_basename F file of
        Some base_name \<Rightarrow>
          if strcmp base_name ''/'' = 0 then gettext X ''File System''
          else if thunar_g_file_is_trash F file then gettext X ''Trash''
          else if g_utf8_validate G base_name then base_name
          else g_uri_escape_string G base_name G_URI_RESERVED_CHARS_ALLOWED_IN_PATH True
      | None \<Rightarrow> ''?'')"

section \<open>Parents\<close>

text \<open>
  \<^verbatim>\<open>thunar_g_file_is_descendant\<close>: the \<^verbatim>\<open>for\<close> loop over \<^verbatim>\<open>parent\<close>, which starts at
  the descendant and is replaced by its own parent after each round. Nothing in the
  interface bounds the length of a parent chain, so the loop is a partial function:
  \<open>None\<close> means that it does not return.
\<close>

partial_function (option) is_descendant_loop :: "'f gfile_iface \<Rightarrow> 'f option \<Rightarrow> 'f \<Rightarrow> bool option" where
  "is_descendant_loop F parent ancestor =
     (case parent of
        None \<Rightarrow> Some False
      | Some p \<Rightarrow>
          if g_file_equal F p ancestor then Some True
          else is_descendant_loop F (g_file_get_parent F p) ancestor)"

definition thunar_g_file_is_descendant :: "'f gfile_iface \<Rightarrow> 'f \<Rightarrow> 'f \<Rightarrow> bool option" where
  "thunar_g_file_is_descendant F descendant ancestor =
     is_descendant_loop F (Some descendant) ancestor"

text \<open>
  The handles on the parent chain of a handle (the handle itself, its parent, and so on),
  and the handles whose chain ends at a root, a handle without parent.
\<close>

inductive on_parent_chain :: "'f gfile_iface \<Rightarrow> 'f \<Rightarrow> 'f \<Rightarrow> bool" for F :: "'f gfile_iface" where
  chain_self: "on_parent_chain F d d"
| chain_up: "g_file_get_parent F d = Some p \<Longrightarrow> on_parent_chain F p x \<Longrightarrow> on_parent_chain F d x"

inductive reaches_root :: "'f gfile_iface \<Rightarrow> 'f \<Rightarrow> bool" for F :: "'f gfile_iface" where
  at_root: "g_file_get_parent F d = None \<Longrightarrow> reaches_root F d"
| below_root: "g_file_get_parent F d = Some p \<Longrightarrow> reaches_root F p \<Longrightarrow> reaches_root F d"

text \<open>
  \<^verbatim>\<open>thunar_g_file_list_get_parents\<close>. An element of the \<^verbatim>\<open>GList\<close> is a pointer: \<open>Some f\<close>
  when it is a \<^verbatim>\<open>GFile\<close>, \<open>None\<close> when \<^verbatim>\<open>G_IS_FILE\<close> rejects it. The inner loop looks
  for the parent in the list built so far, the outer loop appends it when it is new.
\<close>

fun folder_already_added :: "'f gfile_iface \<Rightarrow> 'f list \<Rightarrow> 'f \<Rightarrow> bool" where
  "folder_already_added F [] parent_folder = False"
| "folder_already_added F (x # xs) parent_folder =
     (if g_file_equal F x parent_folder then True else folder_already_added F xs parent_folder)"

fun get_parents_loop :: "'f gfile_iface \<Rightarrow> 'f option list \<Rightarrow> 'f list \<Rightarrow> 'f list" where
  "get_parents_loop F [] parent_folder_list = parent_folder_list"
| "get_parents_loop F (d # rest) parent_folder_list =
     (case d of
        None \<Rightarrow> get_parents_loop F rest parent_folder_list
      | Some file \<Rightarrow>
          (case g_file_get_parent F file of
             None \<Rightarrow> get_parents_loop F rest parent_folder_list
           | Some parent_folder \<Rightarrow>
               if folder_already_added F parent_folder_list parent_folder
               then get_parents_loop F rest parent_folder_list
               else get_parents_loop F rest (parent_folder_list @ [parent_folder])))"

definition thunar_g_file_list_get_parents :: "'f gfile_iface \<Rightarrow> 'f option list \<Rightarrow> 'f list" where
  "thunar_g_file_list_get_parents F file_list = get_parents_loop F file_list []"

section \<open>Display name of a remote mount point\<close>

text \<open>
  \<^verbatim>\<open>thunar_g_file_get_display_name_remote\<close> works with pointers into \<^verbatim>\<open>parse_name\<close>. A
  pointer is modelled by its offset into the string, so that the source's pointer
  comparisons are comparisons of offsets; the offset \<open>length s\<close> is the terminating NUL.
  \<^verbatim>\<open>strchr (p, c)\<close> is the offset of the first \<open>c\<close> at or after \<open>p\<close>, or \<open>None\<close> for
  \<^verbatim>\<open>NULL\<close>.
\<close>

definition strchr :: "string \<Rightarrow> nat \<Rightarrow> char \<Rightarrow> nat option" where
  "strchr s p c =
     (if c \<in> set (drop p s) then Some (p + length (takeWhile (\<lambda>x. x \<noteq> c) (drop p s)))
      else None)"

definition g_str_has_prefix :: "string \<Rightarrow> string \<Rightarrow> bool" where
  "g_str_has_prefix str pre = (take (length pre) str = pre)"

text \<open>\<^verbatim>\<open>while (*p == ':' || *p == '/') ++p;\<close>\<close>

function skip_colons_slashes :: "string \<Rightarrow> nat \<Rightarrow> nat" where
  "skip_colons_slashes s p =
     (if p < length s \<and> (s ! p = CHR '':'' \<or> s ! p = CHR ''/'')
      then skip_colons_slashes s (Suc p) else p)"
  by pat_completeness auto
termination
  by (relation "measure (\<lambda>(s, p). length s - p)") auto

declare skip_colons_slashes.simps [simp del]

text \<open>
  The \<^verbatim>\<open>for\<close> loop over \<^verbatim>\<open>skip_chars\<close>: for each character in turn, \<open>p\<close> moves
  behind its first occurrence when that lies before the path and before the first dot.
\<close>

fun skip_login :: "string \<Rightarrow> nat option \<Rightarrow> nat \<Rightarrow> string \<Rightarrow> nat \<Rightarrow> nat" where
  "skip_login s path firstdot [] p = p"
| "skip_login s path firstdot (c # skip_chars) p =
     (case strchr s p c of
        Some skip \<Rightarrow>
          if (case path of None \<Rightarrow> True | Some q \<Rightarrow> skip < q) \<and> skip < firstdot
          then skip_login s path firstdot skip_chars (skip + 1)
          else skip_login s path firstdot skip_chars p
      | None \<Rightarrow> skip_login s path firstdot skip_chars p)"

text \<open>
  \<^verbatim>\<open>g_strdup_printf\<close> for a format whose only directives are \<^verbatim>\<open>%s\<close> and \<^verbatim>\<open>%%\<close>. The
  flag says that the preceding character was an unconsumed \<^verbatim>\<open>%\<close>. A \<^verbatim>\<open>NULL\<close> argument
  is printed as \<^verbatim>\<open>(null)\<close>, as the C library under GLib does.
\<close>

fun printf_s :: "bool \<Rightarrow> string \<Rightarrow> string option list \<Rightarrow> string" where
  "printf_s pending [] args = (if pending then ''%'' else [])"
| "printf_s False (c # cs) args =
     (if c = CHR ''%'' then printf_s True cs args else c # printf_s False cs args)"
| "printf_s True (c # cs) args =
     (if c = CHR ''s'' then
        (case args of
           [] \<Rightarrow> printf_s False cs []
         | a # rest \<Rightarrow> (case a of None \<Rightarrow> ''(null)'' | Some str \<Rightarrow> str) @ printf_s False cs rest)
      else if c = CHR ''%'' then CHR ''%'' # printf_s False cs args
      else CHR ''%'' # c # printf_s False cs args)"

definition g_strdup_printf :: "string \<Rightarrow> string option list \<Rightarrow> string" where
  "g_strdup_printf format args = printf_s False format args"

text \<open>The body of the inner \<^verbatim>\<open>if\<close>, entered when the parse name starts with the scheme.\<close>

definition remote_name :: "externals \<Rightarrow> glib_iface \<Rightarrow> string \<Rightarrow> string \<Rightarrow> string" where
  "remote_name X G parse_name scheme =
     (let p0 = skip_colons_slashes parse_name (length scheme);
          path = strchr parse_name p0 (CHR ''/'');
          firstdot = strchr parse_name p0 (CHR ''.'');
          p = (case firstdot of
                 Some dot \<Rightarrow> skip_login parse_name path dot '':@'' p0
               | None \<Rightarrow> p0);
          hostname = (case path of
                        Some q \<Rightarrow> take (q - p) (drop p parse_name)
                      | None \<Rightarrow> drop p parse_name);
          path_string = (case path of Some q \<Rightarrow> drop q parse_name | None \<Rightarrow> ''/'');
          unescaped = g_uri_unescape_string G path_string None
      in g_strdup_printf (gettext X ''%s on %s'') [unescaped, Some hostname])"

definition thunar_g_file_get_display_name_remote ::
  "externals \<Rightarrow> glib_iface \<Rightarrow> 'f gfile_iface \<Rightarrow> 'f \<Rightarrow> string" where
  "thunar_g_file_get_display_name_remote X G F mount_point =
     (let display_name =
            (if \<not> g_file_is_native F mount_point then
               (case g_file_get_uri_scheme F mount_point of
                  Some scheme \<Rightarrow>
                    if g_str_has_prefix (g_file_get_parse_name F mount_point) scheme
                    then Some (remote_name X G (g_file_get_parse_name F mount_point) scheme)
                    else None
                | None \<Rightarrow> None)
             else None)
      in case display_name of
           None \<Rightarrow> thunar_g_file_get_display_name X G F mount_point
         | Some name \<Rightarrow> name)"

text \<open>
  The derivation in the words of the specification: strip the scheme and the colons and
  slashes after it; the host is what stands before the first slash, the path what
  follows from that slash on (\<^verbatim>\<open>/\<close> when there is none); a login or password, ended by
  \<^verbatim>\<open>:\<close> or \<^verbatim>\<open>@\<close>, is skipped when it ends before the first dot. \<open>skip_past\<close> takes the
  characters that bound the region in which the separator is looked for.
\<close>

definition skip_past :: "string \<Rightarrow> char \<Rightarrow> string \<Rightarrow> string" where
  "skip_past bounds c h =
     (if c \<in> set (takeWhile (\<lambda>x. x \<notin> set bounds) h) then tl (dropWhile (\<lambda>x. x \<noteq> c) h) else h)"

definition after_scheme :: "string \<Rightarrow> string \<Rightarrow> string" where
  "after_scheme parse_name scheme =
     dropWhile (\<lambda>c. c = CHR '':'' \<or> c = CHR ''/'') (drop (length scheme) parse_name)"



text \<open>The host when a login is skipped only in a host that has a dot.\<close>

definition host_skipping_login_before_dot :: "string \<Rightarrow> string" where
  "host_skipping_login_before_dot rest =
     (let host = takeWhile (\<lambda>c. c \<noteq> CHR ''/'') rest
      in if CHR ''.'' \<in> set host then skip_past ''.'' (CHR ''@'') (skip_past ''.'' (CHR '':'') host)
         else host)"


definition display_name_remote_spec :: "(string \<Rightarrow> string) \<Rightarrow> string \<Rightarrow> string \<Rightarrow> string \<Rightarrow> string" where
  "display_name_remote_spec host_of unescaped_path parse_name scheme =
     unescaped_path @ '' on '' @ host_of (after_scheme parse_name scheme)"

section \<open>Copying through a partial file\<close>

text \<open>
  The error \<^verbatim>\<open>thunar_g_file_copy\<close> makes itself when the destination exists and is not
  to be overwritten ("Try to mimic g_file_copy() error").
\<close>

definition exists_error :: "'f gfile_iface \<Rightarrow> 'f \<Rightarrow> gerror" where
  "exists_error F destination =
     GError G_IO_ERROR G_IO_ERROR_EXISTS
       (g_strdup_printf (''Error opening file '' @ [CHR 0x22] @ ''%s'' @ [CHR 0x22] @ '': File exists'')
          [g_file_peek_path F destination])"

text \<open>
  The second half of \<^verbatim>\<open>thunar_g_file_copy\<close>, from "generate partial file name" to the
  end; \<open>error\<close> is the error pointer at that point of the function. \<^verbatim>\<open>%.100s\<close> prints at
  most the first 100 bytes of the base name. The code says of the parent that it "can't be
  NULL since destination must be a file". Where it is \<^verbatim>\<open>NULL\<close> nevertheless,
  \<^verbatim>\<open>g_file_get_child\<close> and every GIO call on the partial file are given \<^verbatim>\<open>NULL\<close> for a
  handle: GIO rejects the argument, nothing is done, no error is stored, and the function
  returns \<^verbatim>\<open>FALSE\<close>.
\<close>

definition copy_to_partial ::
  "'f gfile_iface \<Rightarrow> ('f, 'w) gvfs_iface \<Rightarrow> 'f \<Rightarrow> 'f \<Rightarrow> 32 word \<Rightarrow> gcancellable option
     \<Rightarrow> gcallback option \<Rightarrow> gcallback option \<Rightarrow> gerror_ptr \<Rightarrow> ('f, 'w) exec
     \<Rightarrow> bool \<times> gerror_ptr \<times> ('f, 'w) exec" where
  "copy_to_partial F V source destination flags cancellable cb cbd error s =
     (let base_name = (case g_file_get_basename F destination of
                         None \<Rightarrow> ''UNNAMED'' | Some b \<Rightarrow> b);
          partial_name = take 100 base_name @ ''.partial~''
      in case g_file_get_parent F destination of
           None \<Rightarrow> (False, error, s)
         | Some parent \<Rightarrow>
             (let partial = g_file_get_child F parent partial_name;
                  (present, s1) = io_query_exists V partial None s;
                  (error1, s2) = (if present
                                  then (case io_delete V partial None error s1 of
                                          (deleted, e, s') \<Rightarrow> (e, s'))
                                  else (error, s1));
                  (copied, error2, s3) =
                     io_copy V source partial flags cancellable cb cbd error1 s2;
                  (success, error3, s4) =
                     (if copied
                      then (case io_set_display_name V partial base_name None error2 s3 of
                              (renamed, e, s') \<Rightarrow> (renamed \<noteq> None, e, s'))
                      else (copied, error2, s3));
                  s5 = (if \<not> success
                        then (case io_delete V partial None None s4 of (deleted, e, s') \<Rightarrow> s')
                        else s4)
              in (success, error3, s5)))"

text \<open>
  \<^verbatim>\<open>thunar_g_file_copy\<close>. The result is the returned \<^verbatim>\<open>gboolean\<close>, the caller's error
  location after the call and the state. The assertion at the top is
  \<^verbatim>\<open>_thunar_return_val_if_fail (g_file_has_parent (destination, NULL), FALSE)\<close>. In the
  overwrite branch the function empties the caller's location, sets its own \<^verbatim>\<open>error\<close>
  variable to \<^verbatim>\<open>NULL\<close> and goes on with that: the test \<^verbatim>\<open>error != NULL\<close> after the
  delete is never true, and all later calls get \<^verbatim>\<open>NULL\<close>.
\<close>

definition copy_query_flags :: "32 word \<Rightarrow> 32 word" where
  "copy_query_flags flags =
     (if flags AND G_FILE_COPY_NOFOLLOW_SYMLINKS \<noteq> 0
      then G_FILE_QUERY_INFO_NOFOLLOW_SYMLINKS else G_FILE_QUERY_INFO_NONE)"

definition thunar_g_file_copy ::
  "externals \<Rightarrow> 'f gfile_iface \<Rightarrow> ('f, 'w) gvfs_iface \<Rightarrow> 'f \<Rightarrow> 'f \<Rightarrow> 32 word \<Rightarrow> bool
     \<Rightarrow> gcancellable option \<Rightarrow> gcallback option \<Rightarrow> gcallback option \<Rightarrow> gerror_ptr
     \<Rightarrow> ('f, 'w) exec \<Rightarrow> bool \<times> gerror_ptr \<times> ('f, 'w) exec" where
  "thunar_g_file_copy X F V source destination flags use_partial cancellable cb cbd error s =
     (if thunar_return_val_if_fail X (g_file_has_parent F destination) then (False, error, s)
      else
        (let (info, s1) =
               (if use_partial
                then (case io_query_info V source G_FILE_ATTRIBUTE_STANDARD_TYPE
                             (copy_query_flags flags) cancellable None s of
                        (i, e, s') \<Rightarrow> (i, s'))
                else (None, s));
             use_partial' =
               (case info of
                  None \<Rightarrow> False
                | Some i \<Rightarrow> g_file_info_get_file_type i = G_FILE_TYPE_REGULAR)
         in if \<not> use_partial'
            then io_copy V source destination flags cancellable cb cbd error s1
            else
              (case io_query_exists V destination None s1 of
                 (present, s2) \<Rightarrow>
                   if present then
                     if flags AND G_FILE_COPY_OVERWRITE \<noteq> 0 then
                       (case io_delete V destination None None s2 of
                          (deleted, e, s3) \<Rightarrow>
                            (case copy_to_partial F V source destination flags
                                    cancellable cb cbd None s3 of
                               (success, e', s4) \<Rightarrow> (success, g_clear_error error, s4)))
                     else
                       (False,
                        (case error of
                           None \<Rightarrow> None
                         | Some c \<Rightarrow> Some (Some (exists_error F destination))),
                        s2)
                   else copy_to_partial F V source destination flags
                          cancellable cb cbd error s2)))"

section \<open>Executable flags\<close>

text \<open>
  \<^verbatim>\<open>thunar_g_file_set_executable_flags\<close>. The assertion at the top is
  \<^verbatim>\<open>_thunar_return_val_if_fail (error == NULL || *error == NULL, FALSE)\<close>. The returned
  value is \<^verbatim>\<open>(error == NULL)\<close>, a test of the pointer the caller passed.
\<close>

definition thunar_g_file_set_executable_flags ::
  "externals \<Rightarrow> ('f, 'w) gvfs_iface \<Rightarrow> 'f \<Rightarrow> gerror_ptr \<Rightarrow> ('f, 'w) exec
     \<Rightarrow> bool \<times> gerror_ptr \<times> ('f, 'w) exec" where
  "thunar_g_file_set_executable_flags X V file error s =
     (if thunar_return_val_if_fail X (no_error_yet error) then (False, error, s)
      else
        (case io_query_info V file G_FILE_ATTRIBUTE_UNIX_MODE G_FILE_QUERY_INFO_NOFOLLOW_SYMLINKS
                None error s of
           (None, error1, s1) \<Rightarrow> (error = None, error1, s1)
         | (Some info, error1, s1) \<Rightarrow>
             if g_file_info_has_attribute info G_FILE_ATTRIBUTE_UNIX_MODE then
               (let old_mode = g_file_info_get_attribute_uint32 info G_FILE_ATTRIBUTE_UNIX_MODE;
                    new_mode = old_mode OR THUNAR_FILE_MODE_USR_EXEC X
                                 OR THUNAR_FILE_MODE_GRP_EXEC X OR THUNAR_FILE_MODE_OTH_EXEC X
                in if old_mode \<noteq> new_mode
                   then (case io_set_attribute_uint32 V file G_FILE_ATTRIBUTE_UNIX_MODE new_mode
                                G_FILE_QUERY_INFO_NOFOLLOW_SYMLINKS None error1 s1 of
                           (done, error2, s2) \<Rightarrow> (error = None, error2, s2))
                   else (error = None, error1, s1))
             else (error = None, error1, s1)))"

section \<open>Key files\<close>





section \<open>Comparing checksums\<close>


section \<open>Reading the record of calls\<close>


text \<open>The calls of \<^verbatim>\<open>thunar_g_file_copy\<close> that are given the caller's cancellable.\<close>

fun copy_forwards_to :: "'f gio_call \<Rightarrow> bool" where
  "copy_forwards_to (QueryInfo f a fl c) = True"
| "copy_forwards_to (Copy src dst fl c cb cbd) = True"
| "copy_forwards_to call = False"

text \<open>The events recorded after the state \<open>s\<close>.\<close>

definition events_since :: "('f, 'w) exec \<Rightarrow> ('f, 'w) exec \<Rightarrow> 'f gio_event list" where
  "events_since s s' = drop (length (calls s)) (calls s')"

text \<open>The errors that the recorded calls produced and were given a location for.\<close>

fun reported :: "'f gio_event list \<Rightarrow> gerror list" where
  "reported [] = []"
| "reported ((c, ptr, G_FAILED e) # evs) = (if ptr then e # reported evs else reported evs)"
| "reported ((c, ptr, out) # evs) = reported evs"

text \<open>Whether a call changes the file system, and whether it is a copy or a rename.\<close>

fun is_copy :: "'f gio_call \<Rightarrow> bool" where
  "is_copy (Copy src dst fl c cb cbd) = True"
| "is_copy call = False"

fun is_rename :: "'f gio_call \<Rightarrow> bool" where
  "is_rename (SetDisplayName f n c) = True"
| "is_rename call = False"

text \<open>
  Names for what the statements about \<^verbatim>\<open>thunar_g_file_copy\<close> speak of: the base name
  used for the partial file and the partial file itself, a child of the destination's
  parent; whether the call takes the partial path (the option is on and the type query on
  the source succeeds and says regular file); whether the destination is present when the
  function checks, after the type query; and whether it blocks the copy (it is present and
  \<^verbatim>\<open>G_FILE_COPY_OVERWRITE\<close> is not set).
\<close>

definition partial_base_name :: "'f gfile_iface \<Rightarrow> 'f \<Rightarrow> string" where
  "partial_base_name F destination =
     (case g_file_get_basename F destination of None \<Rightarrow> ''UNNAMED'' | Some b \<Rightarrow> b)"

definition partial_file :: "'f gfile_iface \<Rightarrow> 'f \<Rightarrow> 'f \<Rightarrow> 'f" where
  "partial_file F destination parent =
     g_file_get_child F parent (take 100 (partial_base_name F destination) @ ''.partial~'')"

definition takes_partial_path ::
  "('f, 'w) gvfs_iface \<Rightarrow> 'f \<Rightarrow> 32 word \<Rightarrow> bool \<Rightarrow> gcancellable option \<Rightarrow> 'w \<Rightarrow> bool" where
  "takes_partial_path V source flags use_partial cancellable w =
     (use_partial \<and>
      (case fst (g_file_query_info V source G_FILE_ATTRIBUTE_STANDARD_TYPE
                   (copy_query_flags flags) cancellable w) of
         Inl e \<Rightarrow> False
       | Inr info \<Rightarrow> g_file_info_get_file_type info = G_FILE_TYPE_REGULAR))"

definition destination_present ::
  "('f, 'w) gvfs_iface \<Rightarrow> 'f \<Rightarrow> 'f \<Rightarrow> 32 word \<Rightarrow> gcancellable option \<Rightarrow> 'w \<Rightarrow> bool" where
  "destination_present V source destination flags cancellable w =
     fst (g_file_query_exists V destination None
            (snd (g_file_query_info V source G_FILE_ATTRIBUTE_STANDARD_TYPE
                    (copy_query_flags flags) cancellable w)))"

definition destination_blocks ::
  "('f, 'w) gvfs_iface \<Rightarrow> 'f \<Rightarrow> 'f \<Rightarrow> 32 word \<Rightarrow> gcancellable option \<Rightarrow> 'w \<Rightarrow> bool" where
  "destination_blocks V source destination flags cancellable w =
     (destination_present V source destination flags cancellable w
      \<and> flags AND G_FILE_COPY_OVERWRITE = 0)"


text \<open>
  What a location holds after the errors \<open>es\<close> were stored through it one after the other
  by GLib's rule: the first of them if it was empty, what it held otherwise.
\<close>

definition deliver :: "gerror_ptr \<Rightarrow> gerror list \<Rightarrow> gerror_ptr" where
  "deliver error es = foldl g_set_error error es"


fun retoken_call ::
  "(gcancellable option \<Rightarrow> gcancellable option) \<Rightarrow> 'f gio_call \<Rightarrow> 'f gio_call" where
  "retoken_call f (QueryInfo file a fl c) = QueryInfo file a fl (f c)"
| "retoken_call f (QueryFilesystemInfo file a c) = QueryFilesystemInfo file a (f c)"
| "retoken_call f (QueryExists file c) = QueryExists file (f c)"
| "retoken_call f (Delete file c) = Delete file (f c)"
| "retoken_call f (Copy src dst fl c cb cbd) = Copy src dst fl (f c) cb cbd"
| "retoken_call f (SetDisplayName file n c) = SetDisplayName file n (f c)"
| "retoken_call f (SetAttributeUInt32 file a v fl c) = SetAttributeUInt32 file a v fl (f c)"
| "retoken_call f (LoadContents file c) = LoadContents file (f c)"
| "retoken_call f (ReplaceContents file d c) = ReplaceContents file d (f c)"
| "retoken_call f (CreateChecksum file c) = CreateChecksum file (f c)"

definition retoken ::
  "(gcancellable option \<Rightarrow> gcancellable option) \<Rightarrow> ('f, 'w) exec \<Rightarrow> ('f, 'w) exec" where
  "retoken f s =
     \<lparr> world = world s, calls = map (\<lambda>ev. (retoken_call f (fst ev), snd ev)) (calls s) \<rparr>"


section \<open>A small implementation of the interface\<close>

text \<open>
  A handle of the toy implementation is a URI in parsed form: scheme, authority and path
  segments. Its world lists the files that exist with their information, and the
  information of the one file system. It serves to evaluate the wrappers on concrete
  inputs; no theorem about the wrappers depends on it. Every file of the toy world is
  empty, and its checksum is that of the empty string.
\<close>

datatype toy_file = Toy (toy_scheme: string) (toy_authority: string) (toy_path: "string list")

record toy_world =
  nodes :: "(toy_file \<times> g_file_info) list"
  filesystem :: "g_file_info option"

fun segments :: "string \<Rightarrow> string \<Rightarrow> string list" where
  "segments cur [] = (if cur = [] then [] else [cur])"
| "segments cur (c # cs) =
     (if c = CHR ''/'' then (if cur = [] then segments [] cs else cur # segments [] cs)
      else segments (cur @ [c]) cs)"

definition toy_path_string :: "string list \<Rightarrow> string" where
  "toy_path_string p = (if p = [] then ''/'' else concat (map (\<lambda>seg. CHR ''/'' # seg) p))"

definition toy_uri :: "toy_file \<Rightarrow> string" where
  "toy_uri f = toy_scheme f @ ''://'' @ toy_authority f @ toy_path_string (toy_path f)"

definition toy_new_for_uri :: "string \<Rightarrow> toy_file" where
  "toy_new_for_uri u =
     (let rest = drop 3 (dropWhile (\<lambda>c. c \<noteq> CHR '':'') u)
      in Toy (takeWhile (\<lambda>c. c \<noteq> CHR '':'') u)
             (takeWhile (\<lambda>c. c \<noteq> CHR ''/'') rest)
             (segments [] (dropWhile (\<lambda>c. c \<noteq> CHR ''/'') rest)))"

definition toy_files :: "toy_file gfile_iface" where
  "toy_files =
     \<lparr> g_file_new_for_path = (\<lambda>p. Toy ''file'' [] (segments [] p)),
       g_file_new_for_uri = toy_new_for_uri,
       g_file_get_uri = (\<lambda>f. Some (toy_uri f)),
       g_file_get_uri_scheme = (\<lambda>f. Some (toy_scheme f)),
       g_file_get_parse_name =
         (\<lambda>f. if toy_scheme f = ''file'' then toy_path_string (toy_path f) else toy_uri f),
       g_file_get_basename = (\<lambda>f. Some (if toy_path f = [] then ''/'' else last (toy_path f))),
       g_file_peek_path =
         (\<lambda>f. if toy_scheme f = ''file'' then Some (toy_path_string (toy_path f)) else None),
       g_file_get_parent =
         (\<lambda>f. if toy_path f = [] then None
              else Some (Toy (toy_scheme f) (toy_authority f) (butlast (toy_path f)))),
       g_file_get_child = (\<lambda>f name. Toy (toy_scheme f) (toy_authority f) (toy_path f @ [name])),
       g_file_equal = (\<lambda>f g. f = g),
       g_file_is_native = (\<lambda>f. toy_scheme f = ''file'') \<rparr>"


definition toy_not_found :: gerror where
  "toy_not_found = GError G_IO_ERROR G_IO_ERROR_NOT_FOUND ''No such file or directory''"

definition toy_exists :: gerror where
  "toy_exists = GError G_IO_ERROR G_IO_ERROR_EXISTS ''Target file exists''"

definition toy_remove :: "toy_file \<Rightarrow> toy_world \<Rightarrow> toy_world" where
  "toy_remove f w = w\<lparr>nodes := filter (\<lambda>n. fst n \<noteq> f) (nodes w)\<rparr>"

definition toy_put :: "toy_file \<Rightarrow> g_file_info \<Rightarrow> toy_world \<Rightarrow> toy_world" where
  "toy_put f info w = w\<lparr>nodes := (f, info) # filter (\<lambda>n. fst n \<noteq> f) (nodes w)\<rparr>"

definition toy_vfs :: "(toy_file, toy_world) gvfs_iface" where
  "toy_vfs =
     \<lparr> g_file_query_info = (\<lambda>f attrs flags canc w.
         case map_of (nodes w) f of None \<Rightarrow> (Inl toy_not_found, w) | Some info \<Rightarrow> (Inr info, w)),
       g_file_query_filesystem_info = (\<lambda>f attrs canc w.
         case filesystem w of None \<Rightarrow> (Inl toy_not_found, w) | Some info \<Rightarrow> (Inr info, w)),
       g_file_query_exists = (\<lambda>f canc w. (map_of (nodes w) f \<noteq> None, w)),
       g_file_delete = (\<lambda>f canc w.
         case map_of (nodes w) f of None \<Rightarrow> (Inl toy_not_found, w)
         | Some info \<Rightarrow> (Inr (), toy_remove f w)),
       g_file_copy = (\<lambda>src dst flags canc cb cbd w.
         case map_of (nodes w) src of None \<Rightarrow> (Inl toy_not_found, w)
         | Some info \<Rightarrow>
             if map_of (nodes w) dst \<noteq> None \<and> flags AND G_FILE_COPY_OVERWRITE = 0
             then (Inl toy_exists, w) else (Inr (), toy_put dst info w)),
       g_file_set_display_name = (\<lambda>f name canc w.
         case map_of (nodes w) f of None \<Rightarrow> (Inl toy_not_found, w)
         | Some info \<Rightarrow>
             (let new = Toy (toy_scheme f) (toy_authority f) (butlast (toy_path f) @ [name])
              in if map_of (nodes w) new \<noteq> None then (Inl toy_exists, w)
                 else (Inr new, toy_put new info (toy_remove f w)))),
       g_file_set_attribute_uint32 = (\<lambda>f attr v flags canc w.
         case map_of (nodes w) f of None \<Rightarrow> (Inl toy_not_found, w)
         | Some info \<Rightarrow> (Inr (), toy_put f ((attr, ATTR_UINT32 v) # info) w)),
       g_file_load_contents = (\<lambda>f canc w.
         case map_of (nodes w) f of None \<Rightarrow> (Inl toy_not_found, w) | Some info \<Rightarrow> (Inr [], w)),
       g_file_replace_contents = (\<lambda>f c canc w.
         (Inr (), toy_put f [(G_FILE_ATTRIBUTE_STANDARD_TYPE, ATTR_UINT32 G_FILE_TYPE_REGULAR)] w)),
       xfce_g_file_create_checksum = (\<lambda>f canc w.
         case map_of (nodes w) f of None \<Rightarrow> (Inl toy_not_found, w)
         | Some info \<Rightarrow> (Inr ''d41d8cd98f00b204e9800998ecf8427e'', w)) \<rparr>"

definition toy_externals :: externals where
  "toy_externals =
     \<lparr> THUNARX_FILESYSTEM_INFO_NAMESPACE = ''filesystem::*'',
       THUNAR_FILE_MODE_USR_EXEC = 64,
       THUNAR_FILE_MODE_GRP_EXEC = 8,
       THUNAR_FILE_MODE_OTH_EXEC = 1,
       xfce_get_homedir = ''/home/user'',
       gettext = (\<lambda>msgid. msgid),
       glib_checks = True,
       thunar_debug = True \<rparr>"

definition start :: "'w \<Rightarrow> ('f, 'w) exec" where
  "start w = \<lparr>world = w, calls = []\<rparr>"

text \<open>A world whose file system reports its total size and not its free space.\<close>

definition size_only_world :: toy_world where
  "size_only_world =
     \<lparr> nodes = [], filesystem = Some [(''filesystem::size'', ATTR_UINT64 1000)] \<rparr>"

text \<open>
  The toy GLib: a string is accepted as UTF-8 when every byte is ASCII; escaping writes
  every byte that is neither unreserved nor allowed as \<^verbatim>\<open>%XX\<close>; unescaping reads
  \<^verbatim>\<open>%XX\<close> back and fails on a malformed or zero escape.
\<close>

definition hex_digit :: "nat \<Rightarrow> char" where
  "hex_digit n = ''0123456789ABCDEF'' ! (n mod 16)"

definition hex_value :: "char \<Rightarrow> nat option" where
  "hex_value c =
     (let n = (of_char c :: nat) in
      if 48 \<le> n \<and> n \<le> 57 then Some (n - 48)
      else if 65 \<le> n \<and> n \<le> 70 then Some (n - 55)
      else if 97 \<le> n \<and> n \<le> 102 then Some (n - 87)
      else None)"

definition unreserved :: "char \<Rightarrow> bool" where
  "unreserved c =
     (let n = (of_char c :: nat) in
      (48 \<le> n \<and> n \<le> 57) \<or> (65 \<le> n \<and> n \<le> 90) \<or> (97 \<le> n \<and> n \<le> 122)
      \<or> c = CHR ''-'' \<or> c = CHR ''.'' \<or> c = CHR ''_'' \<or> c = CHR ''~'')"

definition toy_escape_char :: "string \<Rightarrow> char \<Rightarrow> string" where
  "toy_escape_char allowed c =
     (if unreserved c \<or> c \<in> set allowed then [c]
      else [CHR ''%'', hex_digit (of_char c div 16), hex_digit (of_char c mod 16)])"

fun toy_unescape :: "string \<Rightarrow> string option" where
  "toy_unescape [] = Some []"
| "toy_unescape [c] = (if c = CHR ''%'' then None else Some [c])"
| "toy_unescape [c, d] = (if c = CHR ''%'' then None else map_option (Cons c) (toy_unescape [d]))"
| "toy_unescape (c # h # l # rest) =
     (if c = CHR ''%'' then
        (case (hex_value h, hex_value l) of
           (Some a, Some b) \<Rightarrow>
             if a * 16 + b = 0 then None
             else map_option (Cons (char_of (a * 16 + b))) (toy_unescape rest)
         | _ \<Rightarrow> None)
      else map_option (Cons c) (toy_unescape (h # l # rest)))"

definition toy_glib :: glib_iface where
  "toy_glib =
     \<lparr> g_utf8_validate = list_all (\<lambda>c. (of_char c :: nat) < 128),
       g_uri_escape_string = (\<lambda>s allowed allow_utf8. concat (map (toy_escape_char allowed) s)),
       g_uri_unescape_string = (\<lambda>s illegal. toy_unescape s) \<rparr>"

text \<open>Two regular files \<^verbatim>\<open>/tmp/a\<close> and \<^verbatim>\<open>/tmp/b\<close>, and the same with a mode for \<^verbatim>\<open>a\<close>.\<close>

definition regular_info :: g_file_info where
  "regular_info = [(''standard::type'', ATTR_UINT32 1)]"

definition tmp_file :: "string \<Rightarrow> toy_file" where
  "tmp_file name = Toy ''file'' [] [''tmp'', name]"

definition two_files_world :: toy_world where
  "two_files_world =
     \<lparr> nodes = [(tmp_file ''a'', regular_info), (tmp_file ''b'', regular_info)],
       filesystem = None \<rparr>"



text \<open>States that the runs below end in.\<close>

definition blocked_state :: "gcancellable option \<Rightarrow> 32 word \<Rightarrow> (toy_file, toy_world) exec" where
  "blocked_state cancellable query_flags =
     \<lparr> world = two_files_world,
       calls = [(QueryInfo (tmp_file ''a'') ''standard::type'' query_flags cancellable, False, G_OK),
                (QueryExists (tmp_file ''b'') None, False, G_ANSWER True)] \<rparr>"

definition copied_state :: "string \<Rightarrow> (toy_file, toy_world) exec" where
  "copied_state name =
     \<lparr> world = \<lparr> nodes = [(tmp_file name, regular_info), (tmp_file ''a'', regular_info),
                          (tmp_file ''b'', regular_info)],
                 filesystem = None \<rparr>,
       calls = [(QueryInfo (tmp_file ''a'') ''standard::type'' 0 (Some 5), False, G_OK),
                (QueryExists (tmp_file name) None, False, G_ANSWER False),
                (QueryExists (tmp_file (name @ ''.partial~'')) None, False, G_ANSWER False),
                (Copy (tmp_file ''a'') (tmp_file (name @ ''.partial~'')) 0 (Some 5) None None,
                 True, G_OK),
                (SetDisplayName (tmp_file (name @ ''.partial~'')) name None, True, G_OK)] \<rparr>"






section \<open>Results on the free-space query\<close>

lemma thunar_g_file_get_free_space_success:
  "fst (fst (thunar_g_file_get_free_space X V file fs_free_return fs_size_return s)) =
     (case fst (g_file_query_filesystem_info V file (THUNARX_FILESYSTEM_INFO_NAMESPACE X) None (world s)) of
        Inl e \<Rightarrow> False
      | Inr info \<Rightarrow>
          if fs_size_return \<noteq> None
          then g_file_info_has_attribute info G_FILE_ATTRIBUTE_FILESYSTEM_SIZE
          else fs_free_return \<noteq> None \<and> g_file_info_has_attribute info G_FILE_ATTRIBUTE_FILESYSTEM_FREE)"
  by (auto simp: thunar_g_file_get_free_space_def io_query_filesystem_info_def
      split: prod.splits sum.splits option.splits)

text \<open>
  C1. The claim: \<^verbatim>\<open>thunar_g_file_get_free_space\<close> returns \<^verbatim>\<open>TRUE\<close> only if both the
  free-space and the total-size attribute are present, in particular when both
  out-parameters are given. The code assigns \<^verbatim>\<open>success\<close> twice, and the second
  assignment replaces the first: on a file system that reports its size and not its free
  space, with both out-parameters given, the call returns \<^verbatim>\<open>TRUE\<close>, stores 0 as the
  free space and 1000 as the size, although the free-space attribute is absent.
\<close>

theorem thunar_g_file_get_free_space_size_only:
  "fst (thunar_g_file_get_free_space toy_externals toy_vfs (Toy ''file'' [] [''tmp''])
          (Some 7) (Some 7) (start size_only_world)) = (True, Some 0, Some 1000)
   \<and> \<not> g_file_info_has_attribute [(''filesystem::size'', ATTR_UINT64 1000)]
          G_FILE_ATTRIBUTE_FILESYSTEM_FREE"
  by (simp add: thunar_g_file_get_free_space_def io_query_filesystem_info_def toy_vfs_def
      toy_externals_def start_def size_only_world_def g_file_info_has_attribute_def
      g_file_info_get_attribute_uint64_def G_FILE_ATTRIBUTE_FILESYSTEM_FREE_def
      G_FILE_ATTRIBUTE_FILESYSTEM_SIZE_def logged_def)

section \<open>Results on handles\<close>

lemma strcmp_eq_0_iff: "strcmp a b = 0 \<longleftrightarrow> a = b"
  by (induction a b rule: strcmp.induct) auto

lemma g_strcmp0_eq_0_iff: "g_strcmp0 a b = 0 \<longleftrightarrow> a = b"
  by (cases a; cases b) (simp_all add: strcmp_eq_0_iff)

lemma toy_parent_snoc:
  "g_file_get_parent toy_files (Toy sc au (p @ [n])) = Some (Toy sc au p)"
  by (simp add: toy_files_def)

lemma toy_parent_root: "g_file_get_parent toy_files (Toy sc au []) = None"
  by (simp add: toy_files_def)

lemma toy_equal: "g_file_equal toy_files = (=)"
  by (simp add: toy_files_def fun_eq_iff)

text \<open>
  C7. Each constructor for a named location is the GIO constructor applied to the fixed
  string of the table: the home directory path for home, and the URIs \<^verbatim>\<open>trash:///\<close>,
  \<^verbatim>\<open>recent:///\<close>, \<^verbatim>\<open>computer://\<close> and \<^verbatim>\<open>network://\<close>.
\<close>

theorem constructors_follow_table:
  "constructor_for X F l =
     (case named_location_target X l of
        TargetPath p \<Rightarrow> g_file_new_for_path F p
      | TargetUri u \<Rightarrow> g_file_new_for_uri F u)"
  by (cases l)
    (simp_all add: constructor_for_def named_location_target_def thunar_g_file_new_for_home_def
      thunar_g_file_new_for_trash_def thunar_g_file_new_for_recent_def
      thunar_g_file_new_for_computer_def thunar_g_file_new_for_network_def)



text \<open>Where GIO writes the canonical URI, as the toy implementation does, all four accept.\<close>

lemma toy_predicates_accept:
  "thunar_g_file_is_trash toy_files (thunar_g_file_new_for_trash toy_files)
   \<and> thunar_g_file_is_recent toy_files (thunar_g_file_new_for_recent toy_files)
   \<and> thunar_g_file_is_computer toy_files (thunar_g_file_new_for_computer toy_files)
   \<and> thunar_g_file_is_network toy_files (thunar_g_file_new_for_network toy_files)"
  by code_simp

text \<open>
  The cases of \<^verbatim>\<open>thunar_g_file_get_display_name\<close> for a handle with a base name, in the
  order of the code: the translated label \<^verbatim>\<open>File System\<close> when the base name is \<^verbatim>\<open>/\<close>,
  else the translated label \<^verbatim>\<open>Trash\<close> when the handle's URI is \<^verbatim>\<open>trash:///\<close>, else the
  base name itself when it is valid UTF-8, and else the base name percent-escaped by
  \<^verbatim>\<open>g_uri_escape_string\<close>.
\<close>

lemma display_name_cases:
  assumes "g_file_get_basename F file = Some b"
  shows "thunar_g_file_get_display_name X G F file =
     (if b = ''/'' then gettext X ''File System''
      else if g_file_get_uri F file = Some ''trash:///'' then gettext X ''Trash''
      else if g_utf8_validate G b then b
      else g_uri_escape_string G b G_URI_RESERVED_CHARS_ALLOWED_IN_PATH True)"
  using assms
  by (simp add: thunar_g_file_get_display_name_def thunar_g_file_is_trash_def
      strcmp_eq_0_iff g_strcmp0_eq_0_iff)

lemma display_name_escapes:
  "thunar_g_file_get_display_name toy_externals toy_glib toy_files
     (Toy ''file'' [] [''tmp'', ''caf'' @ [CHR 0xE9]]) = ''caf%E9''"
  by code_simp

lemma display_name_of_root_base:
  "g_file_get_basename F file = Some ''/'' \<Longrightarrow>
   thunar_g_file_get_display_name X G F file = gettext X ''File System''"
  by (simp add: display_name_cases)

text \<open>
  C6. The claim gives the trash root the label \<^verbatim>\<open>Trash\<close>. The code tests the base name
  against \<^verbatim>\<open>/\<close> before it tests for the trash, and the base name of the trash root
  \<^verbatim>\<open>trash:///\<close> is \<^verbatim>\<open>/\<close>: for the handle that \<^verbatim>\<open>thunar_g_file_new_for_trash\<close> makes,
  which \<^verbatim>\<open>thunar_g_file_is_trash\<close> accepts, the function returns \<^verbatim>\<open>File System\<close>.
\<close>

theorem trash_root_is_named_file_system:
  "thunar_g_file_is_trash toy_files (thunar_g_file_new_for_trash toy_files) = True
   \<and> g_file_get_uri toy_files (thunar_g_file_new_for_trash toy_files) = Some ''trash:///''
   \<and> g_file_get_basename toy_files (thunar_g_file_new_for_trash toy_files) = Some ''/''
   \<and> thunar_g_file_get_display_name toy_externals toy_glib toy_files
       (thunar_g_file_new_for_trash toy_files) = ''File System''
   \<and> gettext toy_externals ''Trash'' = ''Trash''"
  by code_simp

lemma on_parent_chain_root:
  "g_file_get_parent F d = None \<Longrightarrow> on_parent_chain F d x \<longleftrightarrow> x = d"
  by (auto elim: on_parent_chain.cases intro: on_parent_chain.intros)

lemma on_parent_chain_step:
  "g_file_get_parent F d = Some p \<Longrightarrow> on_parent_chain F d x \<longleftrightarrow> x = d \<or> on_parent_chain F p x"
  by (auto elim: on_parent_chain.cases intro: on_parent_chain.intros)

lemma is_descendant_loop_found:
  "on_parent_chain F d x \<Longrightarrow> g_file_equal F x a \<Longrightarrow> is_descendant_loop F (Some d) a = Some True"
proof (induction rule: on_parent_chain.induct)
  case (chain_self d)
  then show ?case by (simp add: is_descendant_loop.simps)
next
  case (chain_up d p x)
  then show ?case by (simp add: is_descendant_loop.simps [of F "Some d"])
qed

text \<open>
  C8. When the parent chain of the candidate ends at a root, \<^verbatim>\<open>thunar_g_file_is_descendant\<close>
  returns, and it returns \<^verbatim>\<open>TRUE\<close> exactly when some handle on the chain, the candidate
  included, equals the ancestor under \<^verbatim>\<open>g_file_equal\<close>. The walk ends at a match: when
  there is one the function returns \<^verbatim>\<open>TRUE\<close> whatever lies above it.
\<close>

theorem is_descendant_walks_parent_chain:
  "(reaches_root F descendant \<longrightarrow>
      thunar_g_file_is_descendant F descendant ancestor =
        Some (\<exists>x. on_parent_chain F descendant x \<and> g_file_equal F x ancestor))
   \<and> ((\<exists>x. on_parent_chain F descendant x \<and> g_file_equal F x ancestor) \<longrightarrow>
        thunar_g_file_is_descendant F descendant ancestor = Some True)
   \<and> (g_file_equal F descendant ancestor \<longrightarrow>
        thunar_g_file_is_descendant F descendant ancestor = Some True)"
proof (intro conjI impI)
  assume "reaches_root F descendant"
  then show "thunar_g_file_is_descendant F descendant ancestor =
           Some (\<exists>x. on_parent_chain F descendant x \<and> g_file_equal F x ancestor)"
    unfolding thunar_g_file_is_descendant_def
  proof (induction rule: reaches_root.induct)
    case (at_root d)
    then show ?case
      by (simp add: is_descendant_loop.simps [of F "Some d"] is_descendant_loop.simps [of F None]
          on_parent_chain_root)
  next
    case (below_root d p)
    then show ?case
      by (auto simp: is_descendant_loop.simps [of F "Some d"] on_parent_chain_step)
  qed
next
  assume "\<exists>x. on_parent_chain F descendant x \<and> g_file_equal F x ancestor"
  then show "thunar_g_file_is_descendant F descendant ancestor = Some True"
    unfolding thunar_g_file_is_descendant_def by (auto intro: is_descendant_loop_found)
next
  assume "g_file_equal F descendant ancestor"
  then show "thunar_g_file_is_descendant F descendant ancestor = Some True"
    unfolding thunar_g_file_is_descendant_def
    by (auto intro: is_descendant_loop_found chain_self)
qed

theorem is_descendant_walks_parent_chain_witness:
  "reaches_root toy_files (Toy ''file'' [] [''home'', ''user'', ''docs''])
   \<and> thunar_g_file_is_descendant toy_files (Toy ''file'' [] [''home'', ''user'', ''docs''])
       (Toy ''file'' [] [''home'']) = Some True
   \<and> thunar_g_file_is_descendant toy_files (Toy ''file'' [] [''home''])
       (Toy ''file'' [] [''home'', ''user'', ''docs'']) = Some False"
proof -
  have p3: "g_file_get_parent toy_files (Toy ''file'' [] [''home'', ''user'', ''docs''])
              = Some (Toy ''file'' [] [''home'', ''user''])"
    using toy_parent_snoc [of "''file''" "[]" "[''home'', ''user'']" "''docs''"] by simp
  have p2: "g_file_get_parent toy_files (Toy ''file'' [] [''home'', ''user''])
              = Some (Toy ''file'' [] [''home''])"
    using toy_parent_snoc [of "''file''" "[]" "[''home'']" "''user''"] by simp
  have p1: "g_file_get_parent toy_files (Toy ''file'' [] [''home'']) = Some (Toy ''file'' [] [])"
    using toy_parent_snoc [of "''file''" "[]" "[]" "''home''"] by simp
  have r0: "reaches_root toy_files (Toy ''file'' [] [])"
    by (rule at_root) (rule toy_parent_root)
  have r1: "reaches_root toy_files (Toy ''file'' [] [''home''])"
    by (rule below_root [OF p1 r0])
  have r3: "reaches_root toy_files (Toy ''file'' [] [''home'', ''user'', ''docs''])"
    by (rule below_root [OF p3 below_root [OF p2 r1]])
  have up: "on_parent_chain toy_files (Toy ''file'' [] [''home'', ''user'', ''docs''])
              (Toy ''file'' [] [''home''])"
    by (rule chain_up [OF p3 chain_up [OF p2 chain_self]])
  have down: "\<not> (\<exists>x. on_parent_chain toy_files (Toy ''file'' [] [''home'']) x
                  \<and> g_file_equal toy_files x (Toy ''file'' [] [''home'', ''user'', ''docs'']))"
    by (simp add: on_parent_chain_step [OF p1] on_parent_chain_root [OF toy_parent_root] toy_equal)
  have "thunar_g_file_is_descendant toy_files (Toy ''file'' [] [''home'', ''user'', ''docs''])
          (Toy ''file'' [] [''home'']) = Some True"
    using is_descendant_walks_parent_chain [of toy_files "Toy ''file'' [] [''home'', ''user'', ''docs'']"
        "Toy ''file'' [] [''home'']"] r3 up
    by (auto simp: toy_equal)
  moreover have "thunar_g_file_is_descendant toy_files (Toy ''file'' [] [''home''])
          (Toy ''file'' [] [''home'', ''user'', ''docs'']) = Some False"
    using is_descendant_walks_parent_chain [of toy_files "Toy ''file'' [] [''home'']"
        "Toy ''file'' [] [''home'', ''user'', ''docs'']"] r1 down
    by simp
  ultimately show ?thesis using r3 by simp
qed

lemma folder_already_added_iff:
  "folder_already_added F xs p \<longleftrightarrow> (\<exists>x\<in>set xs. g_file_equal F x p)"
  by (induction xs) auto

lemma earlier_unequal_snoc:
  "(\<forall>i j. i < j \<and> j < length (xs @ [p]) \<longrightarrow> \<not> g_file_equal F ((xs @ [p]) ! i) ((xs @ [p]) ! j))
   \<longleftrightarrow> (\<forall>i j. i < j \<and> j < length xs \<longrightarrow> \<not> g_file_equal F (xs ! i) (xs ! j))
        \<and> (\<forall>x\<in>set xs. \<not> g_file_equal F x p)"
  (is "?L \<longleftrightarrow> ?A \<and> ?B")
proof
  assume L: ?L
  have A: ?A
  proof (intro allI impI)
    fix i j assume ij: "i < j \<and> j < length xs"
    then have "i < j \<and> j < length (xs @ [p])" by simp
    with L have "\<not> g_file_equal F ((xs @ [p]) ! i) ((xs @ [p]) ! j)" by blast
    with ij show "\<not> g_file_equal F (xs ! i) (xs ! j)" by (simp add: nth_append)
  qed
  have B: ?B
  proof
    fix x assume "x \<in> set xs"
    then obtain i where i: "i < length xs" "xs ! i = x" by (auto simp: in_set_conv_nth)
    then have "i < length xs \<and> length xs < length (xs @ [p])" by simp
    with L have "\<not> g_file_equal F ((xs @ [p]) ! i) ((xs @ [p]) ! length xs)" by blast
    with i show "\<not> g_file_equal F x p" by (simp add: nth_append)
  qed
  from A B show "?A \<and> ?B" ..
next
  assume AB: "?A \<and> ?B"
  show ?L
  proof (intro allI impI)
    fix i j assume ij: "i < j \<and> j < length (xs @ [p])"
    show "\<not> g_file_equal F ((xs @ [p]) ! i) ((xs @ [p]) ! j)"
    proof (cases "j < length xs")
      case True
      with ij AB show ?thesis by (simp add: nth_append)
    next
      case False
      with ij have j: "j = length xs" and i: "i < length xs" by auto
      then have "xs ! i \<in> set xs" by simp
      with AB have "\<not> g_file_equal F (xs ! i) p" by blast
      with i j show ?thesis by (simp add: nth_append)
    qed
  qed
qed

lemma get_parents_loop_unequal:
  "(\<forall>i j. i < j \<and> j < length acc \<longrightarrow> \<not> g_file_equal F (acc ! i) (acc ! j)) \<Longrightarrow>
   (\<forall>i j. i < j \<and> j < length (get_parents_loop F fl acc) \<longrightarrow>
      \<not> g_file_equal F (get_parents_loop F fl acc ! i) (get_parents_loop F fl acc ! j))"
proof (induction fl arbitrary: acc)
  case Nil
  then show ?case by simp
next
  case (Cons d rest)
  show ?case
  proof (cases d)
    case None
    with Cons show ?thesis by simp
  next
    case (Some g)
    show ?thesis
    proof (cases "g_file_get_parent F g")
      case None
      with Some Cons show ?thesis by simp
    next
      case (Some parent_folder)
      show ?thesis
      proof (cases "folder_already_added F acc parent_folder")
        case True
        with Some \<open>d = Some g\<close> Cons show ?thesis by simp
      next
        case False
        then have "\<forall>x\<in>set acc. \<not> g_file_equal F x parent_folder"
          by (simp add: folder_already_added_iff)
        with Cons.prems have
          "\<forall>i j. i < j \<and> j < length (acc @ [parent_folder]) \<longrightarrow>
             \<not> g_file_equal F ((acc @ [parent_folder]) ! i) ((acc @ [parent_folder]) ! j)"
          by (simp only: earlier_unequal_snoc simp_thms)
        from Cons.IH [OF this] False Some \<open>d = Some g\<close> show ?thesis by simp
      qed
    qed
  qed
qed

lemma get_parents_loop_keeps: "set acc \<subseteq> set (get_parents_loop F fl acc)"
proof (induction fl arbitrary: acc)
  case Nil
  show ?case by simp
next
  case (Cons d rest)
  have "set acc \<subseteq> set (get_parents_loop F rest acc)" by (rule Cons.IH)
  moreover have "set acc \<subseteq> set (get_parents_loop F rest (acc @ [p]))" for p
    using Cons.IH [of "acc @ [p]"] by simp
  ultimately show ?case by (simp split: option.splits)
qed

lemma get_parents_loop_sources:
  "p \<in> set (get_parents_loop F fl acc) \<Longrightarrow>
   p \<in> set acc \<or> (\<exists>f. Some f \<in> set fl \<and> g_file_get_parent F f = Some p)"
  by (induction fl arbitrary: acc) (fastforce split: option.splits if_splits)+

lemma get_parents_loop_covers:
  "Some f \<in> set fl \<Longrightarrow> g_file_get_parent F f = Some p \<Longrightarrow>
   \<exists>q\<in>set (get_parents_loop F fl acc). q = p \<or> g_file_equal F q p"
proof (induction fl arbitrary: acc)
  case Nil
  then show ?case by simp
next
  case (Cons d rest)
  show ?case
  proof (cases "d = Some f")
    case True
    show ?thesis
    proof (cases "folder_already_added F acc p")
      case True
      then obtain q where "q \<in> set acc" "g_file_equal F q p"
        by (auto simp: folder_already_added_iff)
      moreover have "set acc \<subseteq> set (get_parents_loop F rest acc)" by (rule get_parents_loop_keeps)
      ultimately show ?thesis using \<open>d = Some f\<close> Cons.prems True by auto
    next
      case False
      have "set (acc @ [p]) \<subseteq> set (get_parents_loop F rest (acc @ [p]))"
        by (rule get_parents_loop_keeps)
      then have "p \<in> set (get_parents_loop F rest (acc @ [p]))" by auto
      with False \<open>d = Some f\<close> Cons.prems show ?thesis by auto
    qed
  next
    case False
    with Cons.prems have "Some f \<in> set rest" by auto
    from Cons.IH [OF this Cons.prems(2)] show ?thesis
      by (auto split: option.splits)
  qed
qed

text \<open>
  C10. The list that \<^verbatim>\<open>thunar_g_file_list_get_parents\<close> returns: no entry equals a later
  one under \<^verbatim>\<open>g_file_equal\<close>; every entry is the parent of an input element that is a
  file; every parent of such an element is in the list, itself or as an entry equal to
  it, so that elements without parent and elements that are no files add nothing. When
  \<^verbatim>\<open>g_file_equal\<close> is an equivalence, the entries are pairwise unequal and each parent has
  exactly one entry equal to it.
\<close>

theorem list_get_parents_one_entry_per_parent:
  fixes F :: "'f gfile_iface" and file_list :: "'f option list"
  defines "res \<equiv> thunar_g_file_list_get_parents F file_list"
  shows "(\<forall>i j. i < j \<and> j < length res \<longrightarrow> \<not> g_file_equal F (res ! i) (res ! j))
       \<and> (\<forall>p\<in>set res. \<exists>f. Some f \<in> set file_list \<and> g_file_get_parent F f = Some p)
       \<and> (\<forall>f p. Some f \<in> set file_list \<and> g_file_get_parent F f = Some p \<longrightarrow>
            (\<exists>q\<in>set res. q = p \<or> g_file_equal F q p))
       \<and> (equivp (g_file_equal F) \<longrightarrow>
            (\<forall>i j. i < length res \<and> j < length res \<and> i \<noteq> j \<longrightarrow>
               \<not> g_file_equal F (res ! i) (res ! j))
          \<and> (\<forall>f p. Some f \<in> set file_list \<and> g_file_get_parent F f = Some p \<longrightarrow>
               (\<exists>!i. i < length res \<and> g_file_equal F (res ! i) p)))"
proof -
  have earlier: "\<forall>i j. i < j \<and> j < length res \<longrightarrow> \<not> g_file_equal F (res ! i) (res ! j)"
    unfolding res_def thunar_g_file_list_get_parents_def
    by (rule get_parents_loop_unequal) simp
  have sources: "\<forall>p\<in>set res. \<exists>f. Some f \<in> set file_list \<and> g_file_get_parent F f = Some p"
    unfolding res_def thunar_g_file_list_get_parents_def
    using get_parents_loop_sources [of _ F file_list "[]"] by auto
  have covers: "\<forall>f p. Some f \<in> set file_list \<and> g_file_get_parent F f = Some p \<longrightarrow>
            (\<exists>q\<in>set res. q = p \<or> g_file_equal F q p)"
    unfolding res_def thunar_g_file_list_get_parents_def
    using get_parents_loop_covers [of _ file_list F _ "[]"] by blast
  have equiv: "(\<forall>i j. i < length res \<and> j < length res \<and> i \<noteq> j \<longrightarrow>
               \<not> g_file_equal F (res ! i) (res ! j))
          \<and> (\<forall>f p. Some f \<in> set file_list \<and> g_file_get_parent F f = Some p \<longrightarrow>
               (\<exists>!i. i < length res \<and> g_file_equal F (res ! i) p))"
    if eq: "equivp (g_file_equal F)"
  proof -
    have refl: "g_file_equal F x x" for x using eq by (rule equivp_reflp)
    have sym: "g_file_equal F x y \<Longrightarrow> g_file_equal F y x" for x y using eq by (rule equivp_symp)
    have trans: "g_file_equal F x y \<Longrightarrow> g_file_equal F y z \<Longrightarrow> g_file_equal F x z" for x y z
      using eq by (rule equivp_transp)
    have pairwise: "\<not> g_file_equal F (res ! i) (res ! j)"
      if "i < length res" "j < length res" "i \<noteq> j" for i j
    proof (cases "i < j")
      case True
      with earlier that show ?thesis by blast
    next
      case False
      with that have "j < i \<and> i < length res" by simp
      with earlier have "\<not> g_file_equal F (res ! j) (res ! i)" by blast
      then show ?thesis using sym by blast
    qed
    have one: "\<exists>!i. i < length res \<and> g_file_equal F (res ! i) p"
      if "Some f \<in> set file_list" "g_file_get_parent F f = Some p" for f p
    proof -
      from covers that obtain q where "q \<in> set res" "q = p \<or> g_file_equal F q p" by blast
      then have "q \<in> set res" "g_file_equal F q p" using refl by auto
      then obtain i where i: "i < length res" "g_file_equal F (res ! i) p"
        by (auto simp: in_set_conv_nth)
      show ?thesis
      proof (rule ex1I [of _ i])
        show "i < length res \<and> g_file_equal F (res ! i) p" using i by simp
      next
        fix j assume j: "j < length res \<and> g_file_equal F (res ! j) p"
        then have "g_file_equal F (res ! j) (res ! i)" using i sym trans by blast
        with pairwise [of j i] i j show "j = i" by blast
      qed
    qed
    from pairwise one show ?thesis by blast
  qed
  from earlier sources covers equiv show ?thesis by blast
qed

theorem list_get_parents_one_entry_per_parent_witness:
  "equivp (g_file_equal toy_files)
   \<and> thunar_g_file_list_get_parents toy_files
       [Some (Toy ''file'' [] [''a'', ''x'']), None, Some (Toy ''file'' [] [''a'', ''y'']),
        Some (Toy ''file'' [] []), Some (Toy ''file'' [] [''b'', ''z''])]
     = [Toy ''file'' [] [''a''], Toy ''file'' [] [''b'']]
   \<and> (\<exists>!i. i < length (thunar_g_file_list_get_parents toy_files
       [Some (Toy ''file'' [] [''a'', ''x'']), None, Some (Toy ''file'' [] [''a'', ''y'']),
        Some (Toy ''file'' [] []), Some (Toy ''file'' [] [''b'', ''z''])])
        \<and> g_file_equal toy_files (thunar_g_file_list_get_parents toy_files
       [Some (Toy ''file'' [] [''a'', ''x'']), None, Some (Toy ''file'' [] [''a'', ''y'']),
        Some (Toy ''file'' [] []), Some (Toy ''file'' [] [''b'', ''z''])] ! i)
           (Toy ''file'' [] [''a'']))"
proof -
  let ?l = "[Some (Toy ''file'' [] [''a'', ''x'']), None, Some (Toy ''file'' [] [''a'', ''y'']),
        Some (Toy ''file'' [] []), Some (Toy ''file'' [] [''b'', ''z''])]"
  have eq: "equivp (g_file_equal toy_files)"
    by (simp add: toy_equal identity_equivp)
  have res: "thunar_g_file_list_get_parents toy_files ?l
               = [Toy ''file'' [] [''a''], Toy ''file'' [] [''b'']]"
    by (simp add: thunar_g_file_list_get_parents_def toy_files_def)
  have src: "Some (Toy ''file'' [] [''a'', ''x'']) \<in> set ?l
             \<and> g_file_get_parent toy_files (Toy ''file'' [] [''a'', ''x''])
                 = Some (Toy ''file'' [] [''a''])"
    by (simp add: toy_files_def)
  from list_get_parents_one_entry_per_parent [of toy_files ?l] eq src
  have "\<exists>!i. i < length (thunar_g_file_list_get_parents toy_files ?l)
          \<and> g_file_equal toy_files (thunar_g_file_list_get_parents toy_files ?l ! i)
              (Toy ''file'' [] [''a''])"
    by blast
  with eq res show ?thesis by blast
qed

section \<open>Results on the display name of a remote mount point\<close>


















text \<open>
  The first dot is looked for in all that follows the scheme, the path included. For the
  parse name \<^verbatim>\<open>sftp://nas:22/my.files\<close> the host \<^verbatim>\<open>nas:22\<close> has no dot and no login; the
  code finds the dot of the path, takes \<^verbatim>\<open>nas:\<close> for a login and returns
  \<^verbatim>\<open>/my.files on 22\<close>.
\<close>

lemma display_name_remote_dot_in_path:
  "thunar_g_file_get_display_name_remote toy_externals toy_glib toy_files
     (Toy ''sftp'' ''nas:22'' [''my.files'']) = ''/my.files on 22''
   \<and> g_file_is_native toy_files (Toy ''sftp'' ''nas:22'' [''my.files'']) = False
   \<and> g_file_get_uri_scheme toy_files (Toy ''sftp'' ''nas:22'' [''my.files'']) = Some ''sftp''
   \<and> g_file_get_parse_name toy_files (Toy ''sftp'' ''nas:22'' [''my.files''])
       = ''sftp://nas:22/my.files''
   \<and> g_uri_unescape_string toy_glib ''/my.files'' None = Some ''/my.files''
   \<and> display_name_remote_spec host_skipping_login_before_dot ''/my.files''
       ''sftp://nas:22/my.files'' ''sftp'' = ''/my.files on nas:22''"
  by code_simp




section \<open>Results on copying, executable flags and key files\<close>

lemma g_set_error_None [simp]: "g_set_error err e = None \<longleftrightarrow> err = None"
  by (auto simp: g_set_error_def split: option.splits)

lemma g_set_error_Some [simp]: "(\<exists>y. g_set_error err e = Some y) \<longleftrightarrow> (\<exists>y. err = Some y)"
  by (auto simp: g_set_error_def split: option.splits)


lemma io_query_exists_calls:
  "io_query_exists V f c s = (b, s') \<Longrightarrow> calls s' = calls s @ [(QueryExists f c, False, G_ANSWER b)]"
  by (auto simp: io_query_exists_def logged_def split: prod.splits)

lemma io_query_info_calls:
  "io_query_info V f a fl c err s = (info, err', s') \<Longrightarrow>
   \<exists>out. calls s' = calls s @ [(QueryInfo f a fl c, err \<noteq> None, out)]
     \<and> (out = G_OK \<and> info \<noteq> None \<and> err' = err
        \<or> (\<exists>e. out = G_FAILED e \<and> info = None \<and> err' = g_set_error err e))"
  by (auto simp: io_query_info_def logged_def split: prod.splits sum.splits)

lemma io_delete_calls:
  "io_delete V f c err s = (ok, err', s') \<Longrightarrow>
   \<exists>out. calls s' = calls s @ [(Delete f c, err \<noteq> None, out)]
     \<and> (out = G_OK \<and> ok \<and> err' = err
        \<or> (\<exists>e. out = G_FAILED e \<and> \<not> ok \<and> err' = g_set_error err e))"
  by (auto simp: io_delete_def logged_def split: prod.splits sum.splits)

lemma io_copy_calls:
  "io_copy V src dst fl c cb cbd err s = (ok, err', s') \<Longrightarrow>
   \<exists>out. calls s' = calls s @ [(Copy src dst fl c cb cbd, err \<noteq> None, out)]
     \<and> (out = G_OK \<and> ok \<and> err' = err
        \<or> (\<exists>e. out = G_FAILED e \<and> \<not> ok \<and> err' = g_set_error err e))"
  by (auto simp: io_copy_def logged_def split: prod.splits sum.splits)

lemma io_set_display_name_calls:
  "io_set_display_name V f n c err s = (r, err', s') \<Longrightarrow>
   \<exists>out. calls s' = calls s @ [(SetDisplayName f n c, err \<noteq> None, out)]
     \<and> (out = G_OK \<and> r \<noteq> None \<and> err' = err
        \<or> (\<exists>e. out = G_FAILED e \<and> r = None \<and> err' = g_set_error err e))"
  by (auto simp: io_set_display_name_def logged_def split: prod.splits sum.splits)

lemma events_since_append:
  "calls s' = calls s @ evs \<Longrightarrow> events_since s s' = evs"
  by (simp add: events_since_def)

lemma reported_append: "reported (xs @ ys) = reported xs @ reported ys"
  by (induction xs rule: reported.induct) auto

lemma reported_silent: "reported (xs @ [(c, False, out)]) = reported xs"
  by (cases out) (simp_all add: reported_append)

lemma reported_silent_Cons [simp]: "reported ((c, False, out) # xs) = reported xs"
  by (cases out) simp_all

lemma reported_ok [simp]: "reported ((c, ptr, G_OK) # xs) = reported xs"
  by simp

lemma deliver_Nil [simp]: "deliver err [] = err"
  by (simp add: deliver_def)

lemma deliver_snoc: "deliver err (es @ [e]) = g_set_error (deliver err es) e"
  by (simp add: deliver_def)

lemma deliver_eq_None [simp]: "deliver err es = None \<longleftrightarrow> err = None"
  by (induction es rule: rev_induct) (simp_all add: deliver_snoc)

lemma g_set_error_null [simp]: "g_set_error None e = None"
  by (simp add: g_set_error_def)

lemma deliver_null [simp]: "deliver None es = None"
  by simp

lemma delivered_step:
  assumes "err1 = deliver err (reported xs)"
    and "out = G_OK \<and> err2 = err1 \<or> (\<exists>e. out = G_FAILED e \<and> err2 = g_set_error err1 e)"
  shows "err2 = deliver err (reported (xs @ [(c, err \<noteq> None, out)]))"
proof (cases "err = None")
  case True
  with assms show ?thesis by (auto simp: reported_append)
next
  case False
  with assms show ?thesis
    by (auto simp: reported_append deliver_snoc [of err "reported xs", symmetric])
qed

lemma is_copy_forwards: "is_copy c \<Longrightarrow> copy_forwards_to c"
  by (cases c) simp_all


lemma copy_to_partial_run:
  assumes parent: "g_file_get_parent F destination = Some parent"
    and run: "copy_to_partial F V source destination flags cancellable cb cbd error s
                = (success, error', s')"
  shows "\<exists>stale dl out tail.
           calls s' = calls s @
             (QueryExists (partial_file F destination parent) None, False, G_ANSWER stale)
             # (if stale then [(Delete (partial_file F destination parent) None, error \<noteq> None, dl)]
                else [])
             @ (Copy source (partial_file F destination parent) flags cancellable cb cbd,
                error \<noteq> None, out) # tail
         \<and> (out = G_OK \<longrightarrow>
              (\<exists>ren cl. tail = (SetDisplayName (partial_file F destination parent)
                                 (partial_base_name F destination) None, error \<noteq> None, ren)
                               # (if ren = G_OK then []
                                  else [(Delete (partial_file F destination parent) None, False, cl)])
                      \<and> success = (ren = G_OK)))
         \<and> (out \<noteq> G_OK \<longrightarrow>
              \<not> success
              \<and> (\<exists>cl. tail = [(Delete (partial_file F destination parent) None, False, cl)]))
         \<and> error' = deliver error (reported (events_since s s'))"
proof -
  let ?partial = "partial_file F destination parent"
  let ?base = "partial_base_name F destination"
  let ?copy = "Copy source ?partial flags cancellable cb cbd"
  let ?qe = "\<lambda>stale. (QueryExists ?partial None, False, G_ANSWER stale)"
  obtain stale s1 where q: "io_query_exists V ?partial None s = (stale, s1)"
    by (cases "io_query_exists V ?partial None s") auto
  obtain error1 s2 where d:
    "(if stale then (case io_delete V ?partial None error s1 of (deleted, e, s') \<Rightarrow> (e, s'))
      else (error, s1)) = (error1, s2)"
    by (cases "(if stale then (case io_delete V ?partial None error s1 of (deleted, e, s') \<Rightarrow> (e, s'))
      else (error, s1))") auto
  obtain copied error2 s3 where c:
    "io_copy V source ?partial flags cancellable cb cbd error1 s2 = (copied, error2, s3)"
    by (cases "io_copy V source ?partial flags cancellable cb cbd error1 s2") auto
  from q have e1: "calls s1 = calls s @ [?qe stale]"
    by (rule io_query_exists_calls)
  have "\<exists>dl. calls s2 = calls s @ (?qe stale
                 # (if stale then [(Delete ?partial None, error \<noteq> None, dl)] else []))
    \<and> error1 = deliver error (reported (?qe stale
                 # (if stale then [(Delete ?partial None, error \<noteq> None, dl)] else [])))"
  proof (cases stale)
    case False
    with d e1 show ?thesis by auto
  next
    case True
    obtain deleted where dd: "io_delete V ?partial None error s1 = (deleted, error1, s2)"
      using d True by (cases "io_delete V ?partial None error s1") auto
    then obtain del where del: "calls s2 = calls s1 @ [(Delete ?partial None, error \<noteq> None, del)]"
      "del = G_OK \<and> error1 = error \<or> (\<exists>e. del = G_FAILED e \<and> error1 = g_set_error error e)"
      by (auto dest!: io_delete_calls)
    have "error1 = deliver error (reported ([?qe stale]
              @ [(Delete ?partial None, error \<noteq> None, del)]))"
      by (rule delivered_step [OF _ del(2)]) simp
    with del(1) e1 True show ?thesis
      by (intro exI [of _ del]) simp
  qed
  then obtain dl where e2': "calls s2 = calls s @ (?qe stale
                 # (if stale then [(Delete ?partial None, error \<noteq> None, dl)] else []))
    \<and> error1 = deliver error (reported (?qe stale
                 # (if stale then [(Delete ?partial None, error \<noteq> None, dl)] else [])))" ..
  define pre where "pre = ?qe stale
                 # (if stale then [(Delete ?partial None, error \<noteq> None, dl)] else [])"
  have e2: "calls s2 = calls s @ pre" "error1 = deliver error (reported pre)"
    using e2' by (simp_all add: pre_def)
  have n1: "(error1 \<noteq> None) = (error \<noteq> None)" using e2(2) by simp
  from c obtain out where e3:
    "calls s3 = calls s2 @ [(?copy, error1 \<noteq> None, out)]"
    "out = G_OK \<and> copied \<or> (\<exists>e. out = G_FAILED e \<and> \<not> copied)"
    "out = G_OK \<and> error2 = error1 \<or> (\<exists>e. out = G_FAILED e \<and> error2 = g_set_error error1 e)"
    by (auto dest!: io_copy_calls)
  have d2: "error2 = deliver error (reported (pre @ [(?copy, error \<noteq> None, out)]))"
    by (rule delivered_step [OF e2(2) e3(3)])
  have n2: "(error2 \<noteq> None) = (error \<noteq> None)" using d2 by simp
  have c3: "calls s3 = calls s @ pre @ [(?copy, error \<noteq> None, out)]"
    using e3(1) e2(1) n1 by simp
  have rest: "(case (if copied
              then (case io_set_display_name V ?partial ?base None error2 s3 of
                      (renamed, e, s') \<Rightarrow> (renamed \<noteq> None, e, s'))
              else (copied, error2, s3)) of
             (success, error3, s4) \<Rightarrow>
               (success, error3,
                if \<not> success
                then (case io_delete V ?partial None None s4 of (deleted, e, s') \<Rightarrow> s')
                else s4)) = (success, error', s')"
    using run q d c unfolding copy_to_partial_def Let_def partial_file_def partial_base_name_def parent
    by simp
  have "\<exists>tail. calls s' = calls s @ pre @ (?copy, error \<noteq> None, out) # tail
         \<and> (out = G_OK \<longrightarrow>
              (\<exists>ren cl. tail = (SetDisplayName ?partial ?base None, error \<noteq> None, ren)
                               # (if ren = G_OK then [] else [(Delete ?partial None, False, cl)])
                      \<and> success = (ren = G_OK)))
         \<and> (out \<noteq> G_OK \<longrightarrow>
              \<not> success \<and> (\<exists>cl. tail = [(Delete ?partial None, False, cl)]))
         \<and> error' = deliver error (reported (pre @ (?copy, error \<noteq> None, out) # tail))"
  proof (cases copied)
    case True
    with e3 have out: "out = G_OK" by auto
    obtain renamed error3 s4 where r:
      "io_set_display_name V ?partial ?base None error2 s3 = (renamed, error3, s4)"
      by (cases "io_set_display_name V ?partial ?base None error2 s3") auto
    then obtain ren where e4:
      "calls s4 = calls s3 @ [(SetDisplayName ?partial ?base None, error2 \<noteq> None, ren)]"
      "ren = G_OK \<and> renamed \<noteq> None \<or> (\<exists>e. ren = G_FAILED e \<and> renamed = None)"
      "ren = G_OK \<and> error3 = error2 \<or> (\<exists>e. ren = G_FAILED e \<and> error3 = g_set_error error2 e)"
      by (auto dest!: io_set_display_name_calls)
    have d3: "error3 = deliver error (reported ((pre @ [(?copy, error \<noteq> None, out)])
                 @ [(SetDisplayName ?partial ?base None, error \<noteq> None, ren)]))"
      by (rule delivered_step [OF d2 e4(3)])
    show ?thesis
    proof (cases "renamed \<noteq> None")
      case ok: True
      with e4 have "ren = G_OK" by auto
      moreover from rest True r ok have "success" "s' = s4" "error' = error3" by auto
      ultimately show ?thesis using c3 e4 out d3 n2
        by (intro exI [of _ "[(SetDisplayName ?partial ?base None, error \<noteq> None, ren)]"]) simp
    next
      case bad: False
      with e4 have ren: "ren \<noteq> G_OK" by auto
      obtain deleted e5 s5 where cl: "io_delete V ?partial None None s4 = (deleted, e5, s5)"
        by (cases "io_delete V ?partial None None s4") auto
      then obtain clo where e5: "calls s5 = calls s4 @ [(Delete ?partial None, False, clo)]"
        by (auto dest!: io_delete_calls)
      from rest True r bad cl have fin: "\<not> success" "s' = s5" "error' = error3" by auto
      from d3 have "error3 = deliver error (reported (((pre @ [(?copy, error \<noteq> None, out)])
            @ [(SetDisplayName ?partial ?base None, error \<noteq> None, ren)])
            @ [(Delete ?partial None, False, clo)]))"
        by (simp only: reported_silent)
      with fin show ?thesis using c3 e4 e5 out ren n2
        by (intro exI [of _ "[(SetDisplayName ?partial ?base None, error \<noteq> None, ren),
                        (Delete ?partial None, False, clo)]"]) simp
    qed
  next
    case False
    with e3 have out: "out \<noteq> G_OK" by auto
    obtain deleted e5 s5 where cl: "io_delete V ?partial None None s3 = (deleted, e5, s5)"
      by (cases "io_delete V ?partial None None s3") auto
    then obtain clo where e5: "calls s5 = calls s3 @ [(Delete ?partial None, False, clo)]"
      by (auto dest!: io_delete_calls)
    from rest False cl have fin: "\<not> success" "s' = s5" "error' = error2" by auto
    from d2 have "error2 = deliver error (reported ((pre @ [(?copy, error \<noteq> None, out)])
            @ [(Delete ?partial None, False, clo)]))"
      by (simp only: reported_silent)
    with fin show ?thesis using c3 e5 out
      by (intro exI [of _ "[(Delete ?partial None, False, clo)]"]) simp
  qed
  then obtain tail where t: "calls s' = calls s @ pre @ (?copy, error \<noteq> None, out) # tail
         \<and> (out = G_OK \<longrightarrow>
              (\<exists>ren cl. tail = (SetDisplayName ?partial ?base None, error \<noteq> None, ren)
                               # (if ren = G_OK then [] else [(Delete ?partial None, False, cl)])
                      \<and> success = (ren = G_OK)))
         \<and> (out \<noteq> G_OK \<longrightarrow>
              \<not> success \<and> (\<exists>cl. tail = [(Delete ?partial None, False, cl)]))
         \<and> error' = deliver error (reported (pre @ (?copy, error \<noteq> None, out) # tail))" ..
  note t1 = t [THEN conjunct1] and t2 = t [THEN conjunct2, THEN conjunct1]
    and t3 = t [THEN conjunct2, THEN conjunct2, THEN conjunct1]
    and t4 = t [THEN conjunct2, THEN conjunct2, THEN conjunct2]
  have g1: "calls s' = calls s @
             ?qe stale # (if stale then [(Delete ?partial None, error \<noteq> None, dl)] else [])
             @ (?copy, error \<noteq> None, out) # tail"
    using t1 by (simp add: pre_def)
  have g4: "error' = deliver error (reported (events_since s s'))"
    unfolding events_since_append [OF t1] by (rule t4)
  show ?thesis
    by (intro exI [of _ stale] exI [of _ dl] exI [of _ out] exI [of _ tail] conjI g1 t2 t3 g4)
qed

lemma io_query_info_result:
  "io_query_info V f a fl c err s = (info, err', s') \<Longrightarrow>
   info = (case fst (g_file_query_info V f a fl c (world s)) of Inl e \<Rightarrow> None | Inr i \<Rightarrow> Some i)
   \<and> world s' = snd (g_file_query_info V f a fl c (world s))"
  by (auto simp: io_query_info_def logged_def split: prod.splits sum.splits)

lemma io_query_exists_result:
  "io_query_exists V f c s = (b, s') \<Longrightarrow>
   b = fst (g_file_query_exists V f c (world s)) \<and> world s' = snd (g_file_query_exists V f c (world s))"
  by (auto simp: io_query_exists_def logged_def split: prod.splits)

lemma has_parent_passes:
  "g_file_get_parent F destination = Some parent \<Longrightarrow>
   \<not> thunar_return_val_if_fail X (g_file_has_parent F destination)"
  by (simp add: thunar_return_val_if_fail_def g_return_val_if_fail_def g_file_has_parent_def)

lemma copy_direct:
  assumes go: "\<not> thunar_return_val_if_fail X (g_file_has_parent F destination)"
    and direct: "\<not> takes_partial_path V source flags use_partial cancellable (world s)"
  shows "\<exists>pre s1.
           thunar_g_file_copy X F V source destination flags use_partial cancellable cb cbd error s
             = io_copy V source destination flags cancellable cb cbd error s1
         \<and> calls s1 = calls s @ pre
         \<and> (pre = [] \<or> (\<exists>out. pre = [(QueryInfo source G_FILE_ATTRIBUTE_STANDARD_TYPE
                                           (copy_query_flags flags) cancellable, False, out)]))"
proof (cases use_partial)
  case False
  then have "thunar_g_file_copy X F V source destination flags use_partial cancellable cb cbd error s
             = io_copy V source destination flags cancellable cb cbd error s"
    using go by (simp add: thunar_g_file_copy_def)
  then show ?thesis by (intro exI [of _ "[]"] exI [of _ s]) simp
next
  case True
  obtain info e s1 where q: "io_query_info V source G_FILE_ATTRIBUTE_STANDARD_TYPE
                               (copy_query_flags flags) cancellable None s = (info, e, s1)"
    by (cases "io_query_info V source G_FILE_ATTRIBUTE_STANDARD_TYPE
                               (copy_query_flags flags) cancellable None s") auto
  from io_query_info_result [OF q] direct True
  have "(case info of None \<Rightarrow> False | Some i \<Rightarrow> g_file_info_get_file_type i = G_FILE_TYPE_REGULAR) = False"
    by (auto simp: takes_partial_path_def split: sum.splits)
  with True q go
  have "thunar_g_file_copy X F V source destination flags use_partial cancellable cb cbd error s
             = io_copy V source destination flags cancellable cb cbd error s1"
    by (simp add: thunar_g_file_copy_def)
  moreover from io_query_info_calls [OF q] obtain out where
    "calls s1 = calls s @ [(QueryInfo source G_FILE_ATTRIBUTE_STANDARD_TYPE
                                           (copy_query_flags flags) cancellable, False, out)]"
    by auto
  ultimately show ?thesis
    by (intro exI [of _ "[(QueryInfo source G_FILE_ATTRIBUTE_STANDARD_TYPE
                                           (copy_query_flags flags) cancellable, False, out)]"]
        exI [of _ s1]) simp
qed

lemma copy_partial:
  assumes go: "\<not> thunar_return_val_if_fail X (g_file_has_parent F destination)"
    and partial: "takes_partial_path V source flags use_partial cancellable (world s)"
  shows "\<exists>s2.
           thunar_g_file_copy X F V source destination flags use_partial cancellable cb cbd error s
             = (if destination_present V source destination flags cancellable (world s) then
                  if flags AND G_FILE_COPY_OVERWRITE \<noteq> 0 then
                    (case io_delete V destination None None s2 of
                       (deleted, e, s3) \<Rightarrow>
                         (case copy_to_partial F V source destination flags
                                 cancellable cb cbd None s3 of
                            (success, e', s4) \<Rightarrow> (success, g_clear_error error, s4)))
                  else
                    (False,
                     (case error of
                        None \<Rightarrow> None
                      | Some c \<Rightarrow> Some (Some (exists_error F destination))),
                     s2)
                else copy_to_partial F V source destination flags
                       cancellable cb cbd error s2)
         \<and> calls s2 = calls s @ [(QueryInfo source G_FILE_ATTRIBUTE_STANDARD_TYPE
                                     (copy_query_flags flags) cancellable, False, G_OK),
                                  (QueryExists destination None, False,
                                   G_ANSWER (destination_present V source destination flags
                                               cancellable (world s)))]"
proof -
  from partial have up: use_partial by (simp add: takes_partial_path_def)
  obtain info e s1 where q: "io_query_info V source G_FILE_ATTRIBUTE_STANDARD_TYPE
                               (copy_query_flags flags) cancellable None s = (info, e, s1)"
    by (cases "io_query_info V source G_FILE_ATTRIBUTE_STANDARD_TYPE
                               (copy_query_flags flags) cancellable None s") auto
  from io_query_info_result [OF q] partial
  have reg: "(case info of None \<Rightarrow> False | Some i \<Rightarrow> g_file_info_get_file_type i = G_FILE_TYPE_REGULAR)"
    and w1: "world s1 = snd (g_file_query_info V source G_FILE_ATTRIBUTE_STANDARD_TYPE
                               (copy_query_flags flags) cancellable (world s))"
    by (auto simp: takes_partial_path_def split: sum.splits)
  then have some: "info \<noteq> None" by (auto split: option.splits)
  obtain present s2 where x: "io_query_exists V destination None s1 = (present, s2)"
    by (cases "io_query_exists V destination None s1") auto
  from io_query_exists_result [OF x] w1 have present:
    "present = destination_present V source destination flags cancellable (world s)"
    by (simp add: destination_present_def)
  from io_query_info_calls [OF q] some have c1:
    "calls s1 = calls s @ [(QueryInfo source G_FILE_ATTRIBUTE_STANDARD_TYPE
                                           (copy_query_flags flags) cancellable, False, G_OK)]"
    by auto
  from io_query_exists_calls [OF x] c1 have c2:
    "calls s2 = calls s @ [(QueryInfo source G_FILE_ATTRIBUTE_STANDARD_TYPE
                                     (copy_query_flags flags) cancellable, False, G_OK),
                                  (QueryExists destination None, False, G_ANSWER present)]"
    by simp
  have "thunar_g_file_copy X F V source destination flags use_partial cancellable cb cbd error s
             = (if present then
                  if flags AND G_FILE_COPY_OVERWRITE \<noteq> 0 then
                    (case io_delete V destination None None s2 of
                       (deleted, e, s3) \<Rightarrow>
                         (case copy_to_partial F V source destination flags
                                 cancellable cb cbd None s3 of
                            (success, e', s4) \<Rightarrow> (success, g_clear_error error, s4)))
                  else
                    (False,
                     (case error of
                        None \<Rightarrow> None
                      | Some c \<Rightarrow> Some (Some (exists_error F destination))),
                     s2)
                else copy_to_partial F V source destination flags
                       cancellable cb cbd error s2)"
    using up q reg x go by (simp add: thunar_g_file_copy_def)
  with c2 show ?thesis unfolding present by blast
qed

lemma thunar_g_file_copy_run:
  assumes parent: "g_file_get_parent F destination = Some parent"
    and run: "thunar_g_file_copy X F V source destination flags use_partial cancellable cb cbd error s
                = (success, error', s')"
  shows "if takes_partial_path V source flags use_partial cancellable (world s) then
           if destination_blocks V source destination flags cancellable (world s) then
             \<not> success
             \<and> calls s' = calls s @
                  [(QueryInfo source G_FILE_ATTRIBUTE_STANDARD_TYPE (copy_query_flags flags)
                      cancellable, False, G_OK),
                   (QueryExists destination None, False, G_ANSWER True)]
             \<and> error' = (case error of None \<Rightarrow> None
                          | Some c \<Rightarrow> Some (Some (exists_error F destination)))
           else
             (\<exists>del stale dl out tail.
                calls s' = calls s @
                  [(QueryInfo source G_FILE_ATTRIBUTE_STANDARD_TYPE (copy_query_flags flags)
                      cancellable, False, G_OK),
                   (QueryExists destination None, False,
                    G_ANSWER (destination_present V source destination flags cancellable (world s)))]
                  @ (if destination_present V source destination flags cancellable (world s)
                     then [(Delete destination None, False, del)] else [])
                  @ (QueryExists (partial_file F destination parent) None, False, G_ANSWER stale)
                  # (if stale
                     then [(Delete (partial_file F destination parent) None,
                            \<not> destination_present V source destination flags cancellable (world s)
                            \<and> error \<noteq> None, dl)]
                     else [])
                  @ (Copy source (partial_file F destination parent) flags cancellable cb cbd,
                     \<not> destination_present V source destination flags cancellable (world s)
                     \<and> error \<noteq> None, out) # tail
              \<and> (out = G_OK \<longrightarrow>
                   (\<exists>ren cl. tail = (SetDisplayName (partial_file F destination parent)
                                      (partial_base_name F destination) None,
                                      \<not> destination_present V source destination flags cancellable
                                          (world s)
                                      \<and> error \<noteq> None, ren)
                                    # (if ren = G_OK then []
                                       else [(Delete (partial_file F destination parent) None,
                                              False, cl)])
                           \<and> success = (ren = G_OK)))
              \<and> (out \<noteq> G_OK \<longrightarrow>
                   \<not> success
                   \<and> (\<exists>cl. tail = [(Delete (partial_file F destination parent) None, False, cl)]))
              \<and> error' = (if destination_present V source destination flags cancellable (world s)
                          then g_clear_error error
                          else deliver error (reported (events_since s s'))))
         else
           (\<exists>pre out.
              calls s' = calls s @
                pre @ [(Copy source destination flags cancellable cb cbd, error \<noteq> None, out)]
            \<and> (pre = [] \<or> (\<exists>qo. pre = [(QueryInfo source G_FILE_ATTRIBUTE_STANDARD_TYPE
                                            (copy_query_flags flags) cancellable, False, qo)]))
            \<and> success = (out = G_OK)
            \<and> error' = deliver error (reported (events_since s s')))"
proof (cases "takes_partial_path V source flags use_partial cancellable (world s)")
  case False
  note go = has_parent_passes [OF parent, of X]
  from copy_direct [OF go False, of cb cbd error] obtain pre where
    "\<exists>s1. thunar_g_file_copy X F V source destination flags use_partial cancellable cb cbd error s
             = io_copy V source destination flags cancellable cb cbd error s1
         \<and> calls s1 = calls s @ pre
         \<and> (pre = [] \<or> (\<exists>out. pre = [(QueryInfo source G_FILE_ATTRIBUTE_STANDARD_TYPE
                                           (copy_query_flags flags) cancellable, False, out)]))" ..
  then obtain s1 where d0:
    "thunar_g_file_copy X F V source destination flags use_partial cancellable cb cbd error s
             = io_copy V source destination flags cancellable cb cbd error s1
         \<and> calls s1 = calls s @ pre
         \<and> (pre = [] \<or> (\<exists>out. pre = [(QueryInfo source G_FILE_ATTRIBUTE_STANDARD_TYPE
                                           (copy_query_flags flags) cancellable, False, out)]))" ..
  have d1: "io_copy V source destination flags cancellable cb cbd error s1 = (success, error', s')"
    unfolding d0 [THEN conjunct1, symmetric] by (rule run)
  note d = d1 d0 [THEN conjunct2, THEN conjunct1] d0 [THEN conjunct2, THEN conjunct2]
  from io_copy_calls [OF d(1)] obtain out where o:
    "calls s' = calls s1 @ [(Copy source destination flags cancellable cb cbd, error \<noteq> None, out)]"
    "out = G_OK \<and> success \<and> error' = error
       \<or> (\<exists>e. out = G_FAILED e \<and> \<not> success \<and> error' = g_set_error error e)"
    by auto
  have cs: "calls s' = calls s @
                pre @ [(Copy source destination flags cancellable cb cbd, error \<noteq> None, out)]"
    using o(1) d(2) by simp
  have rp: "reported pre = []" using d(3) by auto
  have "error' = deliver error (reported (pre
           @ [(Copy source destination flags cancellable cb cbd, error \<noteq> None, out)]))"
    by (rule delivered_step) (use rp o(2) in auto)
  then have er: "error' = deliver error (reported (events_since s s'))"
    unfolding events_since_append [OF cs] .
  have su: "success = (out = G_OK)" using o(2) by auto
  have "\<exists>pre out. calls s' = calls s @
                pre @ [(Copy source destination flags cancellable cb cbd, error \<noteq> None, out)]
            \<and> (pre = [] \<or> (\<exists>qo. pre = [(QueryInfo source G_FILE_ATTRIBUTE_STANDARD_TYPE
                                            (copy_query_flags flags) cancellable, False, qo)]))
            \<and> success = (out = G_OK)
            \<and> error' = deliver error (reported (events_since s s'))"
    by (intro exI [of _ pre] exI [of _ out] conjI cs d(3) su er)
  with False show ?thesis by simp
next
  case True
  note go = has_parent_passes [OF parent, of X]
  let ?present = "destination_present V source destination flags cancellable (world s)"
  let ?qi = "(QueryInfo source G_FILE_ATTRIBUTE_STANDARD_TYPE (copy_query_flags flags) cancellable,
              False, G_OK)"
  let ?qe = "(QueryExists destination None, False, G_ANSWER ?present)"
  let ?partial = "partial_file F destination parent"
  let ?base = "partial_base_name F destination"
  let ?copy = "Copy source ?partial flags cancellable cb cbd"
  from copy_partial [OF go True, of cb cbd error] obtain s2 where p0:
    "thunar_g_file_copy X F V source destination flags use_partial cancellable cb cbd error s
             = (if ?present then
                  if flags AND G_FILE_COPY_OVERWRITE \<noteq> 0 then
                    (case io_delete V destination None None s2 of
                       (deleted, e, s3) \<Rightarrow>
                         (case copy_to_partial F V source destination flags
                                 cancellable cb cbd None s3 of
                            (success, e', s4) \<Rightarrow> (success, g_clear_error error, s4)))
                  else
                    (False,
                     (case error of
                        None \<Rightarrow> None
                      | Some c \<Rightarrow> Some (Some (exists_error F destination))),
                     s2)
                else copy_to_partial F V source destination flags
                       cancellable cb cbd error s2)
         \<and> calls s2 = calls s @ [?qi, ?qe]" ..
  have p1: "(if ?present then
                  if flags AND G_FILE_COPY_OVERWRITE \<noteq> 0 then
                    (case io_delete V destination None None s2 of
                       (deleted, e, s3) \<Rightarrow>
                         (case copy_to_partial F V source destination flags
                                 cancellable cb cbd None s3 of
                            (success, e', s4) \<Rightarrow> (success, g_clear_error error, s4)))
                  else
                    (False,
                     (case error of
                        None \<Rightarrow> None
                      | Some c \<Rightarrow> Some (Some (exists_error F destination))),
                     s2)
                else copy_to_partial F V source destination flags
                       cancellable cb cbd error s2) = (success, error', s')"
    unfolding p0 [THEN conjunct1, symmetric] by (rule run)
  note p2 = p0 [THEN conjunct2]
  show ?thesis
  proof (cases "destination_blocks V source destination flags cancellable (world s)")
    case blocks: True
    then have "?present" "flags AND G_FILE_COPY_OVERWRITE = 0"
      by (simp_all add: destination_blocks_def)
    with p1 p2 have "\<not> success
             \<and> calls s' = calls s @ [?qi, (QueryExists destination None, False, G_ANSWER True)]
             \<and> error' = (case error of None \<Rightarrow> None
                          | Some c \<Rightarrow> Some (Some (exists_error F destination)))"
      by auto
    with True blocks show ?thesis by simp
  next
    case free: False
    have "\<exists>del stale dl out tail.
                calls s' = calls s @ [?qi, ?qe]
                  @ (if ?present then [(Delete destination None, False, del)] else [])
                  @ (QueryExists ?partial None, False, G_ANSWER stale)
                  # (if stale then [(Delete ?partial None, \<not> ?present \<and> error \<noteq> None, dl)] else [])
                  @ (?copy, \<not> ?present \<and> error \<noteq> None, out) # tail
              \<and> (out = G_OK \<longrightarrow>
                   (\<exists>ren cl. tail = (SetDisplayName ?partial ?base None,
                                      \<not> ?present \<and> error \<noteq> None, ren)
                                    # (if ren = G_OK then []
                                       else [(Delete ?partial None, False, cl)])
                           \<and> success = (ren = G_OK)))
              \<and> (out \<noteq> G_OK \<longrightarrow>
                   \<not> success \<and> (\<exists>cl. tail = [(Delete ?partial None, False, cl)]))
              \<and> error' = (if ?present then g_clear_error error
                          else deliver error (reported (events_since s s')))"
    proof (cases ?present)
      case absent: False
      with p1 have r: "copy_to_partial F V source destination flags
                       cancellable cb cbd error s2 = (success, error', s')" by simp
      from copy_to_partial_run [OF parent r] obtain stale dl out tail where
        t: "calls s' = calls s2 @
             (QueryExists ?partial None, False, G_ANSWER stale)
             # (if stale then [(Delete ?partial None, error \<noteq> None, dl)] else [])
             @ (?copy, error \<noteq> None, out) # tail
         \<and> (out = G_OK \<longrightarrow>
              (\<exists>ren cl. tail = (SetDisplayName ?partial ?base None, error \<noteq> None, ren)
                               # (if ren = G_OK then [] else [(Delete ?partial None, False, cl)])
                      \<and> success = (ren = G_OK)))
         \<and> (out \<noteq> G_OK \<longrightarrow>
              \<not> success \<and> (\<exists>cl. tail = [(Delete ?partial None, False, cl)]))
         \<and> error' = deliver error (reported (events_since s2 s'))"
        by (elim exE)
      note t1 = t [THEN conjunct1] and t2 = t [THEN conjunct2, THEN conjunct1]
        and t3 = t [THEN conjunct2, THEN conjunct2, THEN conjunct1]
        and t4 = t [THEN conjunct2, THEN conjunct2, THEN conjunct2]
      let ?P = "(QueryExists ?partial None, False, G_ANSWER stale)
             # (if stale then [(Delete ?partial None, error \<noteq> None, dl)] else [])
             @ (?copy, error \<noteq> None, out) # tail"
      have cs: "calls s' = calls s @ [?qi, ?qe] @ ?P" using t1 p2 by simp
      have "reported (events_since s s') = reported (events_since s2 s')"
        unfolding events_since_append [OF cs] events_since_append [OF t1] by simp
      with t4 have er: "error' = deliver error (reported (events_since s s'))" by simp
      show ?thesis
        using absent cs t2 t3 er
        by (intro exI [of _ G_OK] exI [of _ stale] exI [of _ dl] exI [of _ out] exI [of _ tail])
          simp
    next
      case present: True
      with free have ow: "flags AND G_FILE_COPY_OVERWRITE \<noteq> 0"
        by (simp add: destination_blocks_def)
      obtain deleted e s3 where dl: "io_delete V destination None None s2 = (deleted, e, s3)"
        by (cases "io_delete V destination None None s2") auto
      obtain success0 e' s4 where r: "copy_to_partial F V source destination flags
                       cancellable cb cbd None s3 = (success0, e', s4)"
        by (cases "copy_to_partial F V source destination flags
                       cancellable cb cbd None s3") auto
      from p1 present ow dl r have fin: "success0 = success" "error' = g_clear_error error" "s4 = s'"
        by auto
      from io_delete_calls [OF dl] obtain del where
        c3: "calls s3 = calls s2 @ [(Delete destination None, False, del)]" by auto
      from copy_to_partial_run [OF parent r] obtain stale dl out tail where
        t: "calls s4 = calls s3 @
             (QueryExists ?partial None, False, G_ANSWER stale)
             # (if stale then [(Delete ?partial None, (None :: gerror_ptr) \<noteq> None, dl)] else [])
             @ (?copy, (None :: gerror_ptr) \<noteq> None, out) # tail
         \<and> (out = G_OK \<longrightarrow>
              (\<exists>ren cl. tail = (SetDisplayName ?partial ?base None,
                                 (None :: gerror_ptr) \<noteq> None, ren)
                               # (if ren = G_OK then [] else [(Delete ?partial None, False, cl)])
                      \<and> success0 = (ren = G_OK)))
         \<and> (out \<noteq> G_OK \<longrightarrow>
              \<not> success0 \<and> (\<exists>cl. tail = [(Delete ?partial None, False, cl)]))
         \<and> e' = deliver None (reported (events_since s3 s4))"
        by (elim exE)
      note t1 = t [THEN conjunct1] and t2 = t [THEN conjunct2, THEN conjunct1]
        and t3 = t [THEN conjunct2, THEN conjunct2, THEN conjunct1]
      show ?thesis
        using present t1 t2 t3 fin c3 p2
        by (intro exI [of _ del] exI [of _ stale] exI [of _ dl] exI [of _ out] exI [of _ tail])
          simp
    qed
    with True free show ?thesis by simp
  qed
qed








lemma set_executable_flags_result:
  "thunar_g_file_set_executable_flags X V file error s = (result, error', s') \<Longrightarrow>
   result = (error = None)"
  by (auto simp: thunar_g_file_set_executable_flags_def Let_def thunar_return_val_if_fail_def
      g_return_val_if_fail_def no_error_yet_def
      split: prod.splits option.splits if_splits)






lemma world_retoken [simp]: "world (retoken f s) = world s"
  by (simp add: retoken_def)

lemma retoken_logged [simp]:
  "retoken f (logged c err out w s) = logged (retoken_call f c) err out w (retoken f s)"
  by (simp add: retoken_def logged_def)














lemma filter_quiet:
  "list_all (\<lambda>ev. \<not> is_copy (fst ev) \<and> \<not> is_rename (fst ev) \<and> P ev) pre \<Longrightarrow>
   filter (\<lambda>ev. is_copy (fst ev) \<or> is_rename (fst ev)) pre = []
   \<and> filter (\<lambda>ev. is_copy (fst ev)) pre = [] \<and> filter (\<lambda>ev. is_rename (fst ev)) pre = []"
  by (induction pre) auto

text \<open>
  C2, as amended. For a destination with a parent, \<^verbatim>\<open>thunar_g_file_copy\<close> does one of
  three things. When the partial option is on and the type query says that the source is a
  regular file, and the destination exists while \<^verbatim>\<open>G_FILE_COPY_OVERWRITE\<close> is not set,
  it makes the type query and the existence check, nothing else, and fails. In the other
  cases of a regular source its calls are, in this order: the type query; the existence
  check of the destination; the delete of the destination if it exists; the existence check
  of the partial file (the child of the destination's parent named by the first 100 bytes
  of the destination's base name and \<^verbatim>\<open>.partial~\<close>); the delete of the partial file if
  it exists; the copy of the source to the partial file; when that copy succeeds, the
  rename of the partial file to the base name, and the result is whether the rename
  succeeded; when the copy or the rename fails, a last delete of the partial file with
  no cancellable and no error location, and the result is \<^verbatim>\<open>FALSE\<close>. When the option is
  off or the source is not known to be a regular file, the calls are the type query, if
  the option is on, and the copy from the source to the destination, and the result is
  the success of that copy.
\<close>

theorem copy_through_partial_file:
  assumes parent: "g_file_get_parent F destination = Some parent"
    and run: "thunar_g_file_copy X F V source destination flags use_partial cancellable cb cbd
                error s = (success, error', s')"
  shows "if takes_partial_path V source flags use_partial cancellable (world s) then
           if destination_blocks V source destination flags cancellable (world s) then
             \<not> success
             \<and> events_since s s' =
                  [(QueryInfo source G_FILE_ATTRIBUTE_STANDARD_TYPE (copy_query_flags flags)
                      cancellable, False, G_OK),
                   (QueryExists destination None, False, G_ANSWER True)]
           else
             (\<exists>del stale ptr dl out tail.
                events_since s s' =
                  [(QueryInfo source G_FILE_ATTRIBUTE_STANDARD_TYPE (copy_query_flags flags)
                      cancellable, False, G_OK),
                   (QueryExists destination None, False,
                    G_ANSWER (destination_present V source destination flags cancellable (world s)))]
                  @ (if destination_present V source destination flags cancellable (world s)
                     then [(Delete destination None, False, del)] else [])
                  @ (QueryExists (partial_file F destination parent) None, False, G_ANSWER stale)
                  # (if stale then [(Delete (partial_file F destination parent) None, ptr, dl)]
                     else [])
                  @ (Copy source (partial_file F destination parent) flags cancellable cb cbd,
                     ptr, out) # tail
              \<and> (out = G_OK \<longrightarrow>
                   (\<exists>ren cl. tail = (SetDisplayName (partial_file F destination parent)
                                      (partial_base_name F destination) None, ptr, ren)
                                    # (if ren = G_OK then []
                                       else [(Delete (partial_file F destination parent) None,
                                              False, cl)])
                           \<and> success = (ren = G_OK)))
              \<and> (out \<noteq> G_OK \<longrightarrow>
                   \<not> success
                   \<and> (\<exists>cl. tail = [(Delete (partial_file F destination parent) None, False, cl)])))
         else
           (\<exists>pre out.
              events_since s s' =
                pre @ [(Copy source destination flags cancellable cb cbd, error \<noteq> None, out)]
            \<and> (pre = [] \<or> (\<exists>qo. use_partial
                              \<and> pre = [(QueryInfo source G_FILE_ATTRIBUTE_STANDARD_TYPE
                                          (copy_query_flags flags) cancellable, False, qo)]))
            \<and> success = (out = G_OK))"
proof (cases "takes_partial_path V source flags use_partial cancellable (world s)")
  case False
  with thunar_g_file_copy_run [OF parent run] obtain pre out where
    d: "calls s' = calls s @
                pre @ [(Copy source destination flags cancellable cb cbd, error \<noteq> None, out)]
            \<and> (pre = [] \<or> (\<exists>qo. pre = [(QueryInfo source G_FILE_ATTRIBUTE_STANDARD_TYPE
                                            (copy_query_flags flags) cancellable, False, qo)]))
            \<and> success = (out = G_OK)
            \<and> error' = deliver error (reported (events_since s s'))"
    by (simp only: if_False) (elim exE)
  have g1: "events_since s s' =
                pre @ [(Copy source destination flags cancellable cb cbd, error \<noteq> None, out)]"
    using d [THEN conjunct1] by (rule events_since_append)
  have g2: "pre = [] \<or> (\<exists>qo. use_partial
                              \<and> pre = [(QueryInfo source G_FILE_ATTRIBUTE_STANDARD_TYPE
                                          (copy_query_flags flags) cancellable, False, qo)])"
  proof (cases use_partial)
    case True
    with d show ?thesis by blast
  next
    case off: False
    have go: "\<not> thunar_return_val_if_fail X (g_file_has_parent F destination)"
      using parent by (rule has_parent_passes)
    from off go run
    have "io_copy V source destination flags cancellable cb cbd error s = (success, error', s')"
      by (simp add: thunar_g_file_copy_def)
    from io_copy_calls [OF this] d have "pre = []" by auto
    then show ?thesis by simp
  qed
  have g3: "success = (out = G_OK)" using d by blast
  have "\<exists>pre out. events_since s s' =
                pre @ [(Copy source destination flags cancellable cb cbd, error \<noteq> None, out)]
            \<and> (pre = [] \<or> (\<exists>qo. use_partial
                              \<and> pre = [(QueryInfo source G_FILE_ATTRIBUTE_STANDARD_TYPE
                                          (copy_query_flags flags) cancellable, False, qo)]))
            \<and> success = (out = G_OK)"
    by (intro exI [of _ pre] exI [of _ out] conjI g1 g2 g3)
  with False show ?thesis by simp
next
  case True
  show ?thesis
  proof (cases "destination_blocks V source destination flags cancellable (world s)")
    case blocks: True
    with True thunar_g_file_copy_run [OF parent run] have
      "\<not> success \<and> calls s' = calls s @
                  [(QueryInfo source G_FILE_ATTRIBUTE_STANDARD_TYPE (copy_query_flags flags)
                      cancellable, False, G_OK),
                   (QueryExists destination None, False, G_ANSWER True)]"
      by simp
    then have "\<not> success
             \<and> events_since s s' =
                  [(QueryInfo source G_FILE_ATTRIBUTE_STANDARD_TYPE (copy_query_flags flags)
                      cancellable, False, G_OK),
                   (QueryExists destination None, False, G_ANSWER True)]"
      by (simp add: events_since_def)
    with True blocks show ?thesis by simp
  next
    case free: False
    let ?present = "destination_present V source destination flags cancellable (world s)"
    let ?partial = "partial_file F destination parent"
    let ?copy = "Copy source ?partial flags cancellable cb cbd"
    let ?ptr = "\<not> ?present \<and> error \<noteq> None"
    let ?head = "[(QueryInfo source G_FILE_ATTRIBUTE_STANDARD_TYPE (copy_query_flags flags)
                      cancellable, False, G_OK),
                   (QueryExists destination None, False, G_ANSWER ?present)]"
    from True free thunar_g_file_copy_run [OF parent run] obtain del stale dl out tail where
      t: "calls s' = calls s @ ?head
                  @ (if ?present then [(Delete destination None, False, del)] else [])
                  @ (QueryExists ?partial None, False, G_ANSWER stale)
                  # (if stale then [(Delete ?partial None, ?ptr, dl)] else [])
                  @ (?copy, ?ptr, out) # tail
              \<and> (out = G_OK \<longrightarrow>
                   (\<exists>ren cl. tail = (SetDisplayName ?partial
                                      (partial_base_name F destination) None, ?ptr, ren)
                                    # (if ren = G_OK then []
                                       else [(Delete ?partial None, False, cl)])
                           \<and> success = (ren = G_OK)))
              \<and> (out \<noteq> G_OK \<longrightarrow>
                   \<not> success \<and> (\<exists>cl. tail = [(Delete ?partial None, False, cl)]))
              \<and> error' = (if ?present then g_clear_error error
                          else deliver error (reported (events_since s s')))"
      by (simp only: if_True if_False) (elim exE)
    note t1 = t [THEN conjunct1] and t2 = t [THEN conjunct2, THEN conjunct1]
      and t3 = t [THEN conjunct2, THEN conjunct2, THEN conjunct1]
    have g1: "events_since s s' = ?head
                  @ (if ?present then [(Delete destination None, False, del)] else [])
                  @ (QueryExists ?partial None, False, G_ANSWER stale)
                  # (if stale then [(Delete ?partial None, ?ptr, dl)] else [])
                  @ (?copy, ?ptr, out) # tail"
      using t1 by (rule events_since_append)
    have "\<exists>del stale ptr dl out tail.
                events_since s s' = ?head
                  @ (if ?present then [(Delete destination None, False, del)] else [])
                  @ (QueryExists ?partial None, False, G_ANSWER stale)
                  # (if stale then [(Delete ?partial None, ptr, dl)] else [])
                  @ (?copy, ptr, out) # tail
              \<and> (out = G_OK \<longrightarrow>
                   (\<exists>ren cl. tail = (SetDisplayName ?partial
                                      (partial_base_name F destination) None, ptr, ren)
                                    # (if ren = G_OK then []
                                       else [(Delete ?partial None, False, cl)])
                           \<and> success = (ren = G_OK)))
              \<and> (out \<noteq> G_OK \<longrightarrow>
                   \<not> success \<and> (\<exists>cl. tail = [(Delete ?partial None, False, cl)]))"
      by (intro exI [of _ del] exI [of _ stale] exI [of _ ?ptr] exI [of _ dl] exI [of _ out]
          exI [of _ tail] conjI g1 t2 t3)
    with True free show ?thesis by simp
  qed
qed

theorem copy_through_partial_file_witness:
  "g_file_get_parent toy_files (tmp_file ''c'') = Some (Toy ''file'' [] [''tmp''])
   \<and> thunar_g_file_copy toy_externals toy_files toy_vfs (tmp_file ''a'') (tmp_file ''c'')
       G_FILE_COPY_NONE True (Some 5) None None (Some None) (start two_files_world)
     = (True, Some None, copied_state ''c'')
   \<and> takes_partial_path toy_vfs (tmp_file ''a'') G_FILE_COPY_NONE True (Some 5) two_files_world
   \<and> \<not> destination_blocks toy_vfs (tmp_file ''a'') (tmp_file ''c'') G_FILE_COPY_NONE (Some 5)
         two_files_world
   \<and> (\<exists>del stale ptr dl out tail.
                events_since (start two_files_world) (copied_state ''c'') =
                  [(QueryInfo (tmp_file ''a'') G_FILE_ATTRIBUTE_STANDARD_TYPE (copy_query_flags G_FILE_COPY_NONE)
                      (Some 5), False, G_OK),
                   (QueryExists (tmp_file ''c'') None, False,
                    G_ANSWER (destination_present toy_vfs (tmp_file ''a'') (tmp_file ''c'') G_FILE_COPY_NONE (Some 5) two_files_world))]
                  @ (if destination_present toy_vfs (tmp_file ''a'') (tmp_file ''c'') G_FILE_COPY_NONE (Some 5) two_files_world
                     then [(Delete (tmp_file ''c'') None, False, del)] else [])
                  @ (QueryExists (partial_file toy_files (tmp_file ''c'') (Toy ''file'' [] [''tmp''])) None, False, G_ANSWER stale)
                  # (if stale then [(Delete (partial_file toy_files (tmp_file ''c'') (Toy ''file'' [] [''tmp''])) None, ptr, dl)]
                     else [])
                  @ (Copy (tmp_file ''a'') (partial_file toy_files (tmp_file ''c'') (Toy ''file'' [] [''tmp''])) G_FILE_COPY_NONE (Some 5) None None,
                     ptr, out) # tail
              \<and> (out = G_OK \<longrightarrow>
                   (\<exists>ren cl. tail = (SetDisplayName (partial_file toy_files (tmp_file ''c'') (Toy ''file'' [] [''tmp'']))
                                      (partial_base_name toy_files (tmp_file ''c'')) None, ptr, ren)
                                    # (if ren = G_OK then []
                                       else [(Delete (partial_file toy_files (tmp_file ''c'') (Toy ''file'' [] [''tmp''])) None,
                                              False, cl)])
                           \<and> True = (ren = G_OK)))
              \<and> (out \<noteq> G_OK \<longrightarrow>
                   \<not> True
                   \<and> (\<exists>cl. tail = [(Delete (partial_file toy_files (tmp_file ''c'') (Toy ''file'' [] [''tmp''])) None, False, cl)])))"
proof -
  have p: "g_file_get_parent toy_files (tmp_file ''c'') = Some (Toy ''file'' [] [''tmp''])"
    by code_simp
  have r: "thunar_g_file_copy toy_externals toy_files toy_vfs (tmp_file ''a'') (tmp_file ''c'')
       G_FILE_COPY_NONE True (Some 5) None None (Some None) (start two_files_world)
     = (True, Some None, copied_state ''c'')"
    by code_simp
  have w: "world (start two_files_world :: (toy_file, toy_world) exec) = two_files_world"
    by (simp add: start_def)
  have tp: "takes_partial_path toy_vfs (tmp_file ''a'') G_FILE_COPY_NONE True (Some 5)
              two_files_world = True"
    by code_simp
  have nb: "destination_blocks toy_vfs (tmp_file ''a'') (tmp_file ''c'') G_FILE_COPY_NONE (Some 5)
              two_files_world = False"
    by code_simp
  have tp': "takes_partial_path toy_vfs (tmp_file ''a'') G_FILE_COPY_NONE True (Some 5)
               two_files_world"
    using tp by simp
  have nb': "\<not> destination_blocks toy_vfs (tmp_file ''a'') (tmp_file ''c'') G_FILE_COPY_NONE
                 (Some 5) two_files_world"
    using nb by simp
  note shape = copy_through_partial_file [OF p r, unfolded w tp nb if_True if_False]
  show ?thesis by (intro conjI p r tp' nb' shape)
qed

text \<open>
  The claim as it stands fails where the destination exists: with the partial option on
  and a regular source, the call for \<^verbatim>\<open>/tmp/a\<close> to the existing \<^verbatim>\<open>/tmp/b\<close> returns
  \<^verbatim>\<open>FALSE\<close> after two queries and makes no copy at all.
\<close>

theorem copy_blocked_by_destination:
  "takes_partial_path toy_vfs (tmp_file ''a'') G_FILE_COPY_NONE True None two_files_world
   \<and> thunar_g_file_copy toy_externals toy_files toy_vfs (tmp_file ''a'') (tmp_file ''b'')
       G_FILE_COPY_NONE True None None None (Some None) (start two_files_world)
     = (False,
        Some (Some (GError G_IO_ERROR G_IO_ERROR_EXISTS
          (''Error opening file '' @ [CHR 0x22] @ ''/tmp/b'' @ [CHR 0x22] @ '': File exists''))),
        blocked_state None 0)
   \<and> map fst (calls (blocked_state None 0))
       = [QueryInfo (tmp_file ''a'') ''standard::type'' 0 None, QueryExists (tmp_file ''b'') None]"
  by code_simp







end
